theory Spec2Isabelle
  imports Main "HOL-Library.Sublist"
begin

section \<open>Python values, exceptions and string operations\<close>

text \<open>
  A text is a list of characters, each character a Unicode code point below 256; texts
  with other code points are outside the model. On this range the whitespace, case and
  integer operations below are those of the interpreter.

  The service handles job postings as Python dictionaries with string keys. Their values
  have the type \<open>Any\<close>: a value is a text, \<open>None\<close>, or some other object (a number, a
  boolean, a list, a dictionary). Such an object is described by what the operations of
  this program make of it: what the validation of a string field of \<open>ScoredJob\<close> turns it
  into (nothing when it raises), its text in an f-string, the text of its slice \<open>[:500]\<close>
  in an f-string (nothing when slicing raises), and whether it is true in a test. It has
  none of the string methods \<open>strip\<close> and \<open>lower\<close>.

  An exception is a value: every operation that can raise returns \<open>exn + 'a\<close>, with
  \<open>Inl\<close> for the exception.
\<close>

record other_value =
  as_str_field :: "string option"
  formatted :: string
  sliced :: "string option"
  truth :: bool

datatype pyval = Str string | PyNone | Other other_value

type_synonym job_dict = "string \<rightharpoonup> pyval"

datatype exn =
    KeyError string
  | AttributeError string
  | TypeError string
  | ValidationError "string list"
  | ImportError string
  | RequestError string
  | HTTPException nat string
  | HTTPFailure nat string exn

text \<open>
  \<open>KeyError\<close> carries the missing key, \<open>AttributeError\<close> and \<open>TypeError\<close> the name of
  what was asked of a value that does not have it, \<open>ValidationError\<close> the fields that
  failed. \<open>HTTPException\<close> carries its status code and detail; \<open>HTTPFailure\<close> is the
  \<open>HTTPException\<close> an endpoint raises from its handler, whose detail is the given text
  followed by the text of the exception it caught, kept here as the exception itself.
\<close>

definition bind :: "exn + 'a \<Rightarrow> ('a \<Rightarrow> exn + 'b) \<Rightarrow> exn + 'b" where
  "bind m f = (case m of Inl e \<Rightarrow> Inl e | Inr x \<Rightarrow> f x)"

definition subscript :: "job_dict \<Rightarrow> string \<Rightarrow> exn + pyval" where
  \<comment> \<open>\<open>job[k]\<close>\<close>
  "subscript job k = (case job k of None \<Rightarrow> Inl (KeyError k) | Some v \<Rightarrow> Inr v)"

definition dict_get :: "job_dict \<Rightarrow> string \<Rightarrow> pyval" where
  \<comment> \<open>\<open>job.get(k)\<close>\<close>
  "dict_get job k = (case job k of None \<Rightarrow> PyNone | Some v \<Rightarrow> v)"

definition dict_get_default :: "job_dict \<Rightarrow> string \<Rightarrow> pyval \<Rightarrow> pyval" where
  \<comment> \<open>\<open>job.get(k, d)\<close>\<close>
  "dict_get_default job k d = (case job k of None \<Rightarrow> d | Some v \<Rightarrow> v)"

definition truthy :: "pyval \<Rightarrow> bool" where
  "truthy v = (case v of Str s \<Rightarrow> s \<noteq> [] | PyNone \<Rightarrow> False | Other x \<Rightarrow> truth x)"

definition format_val :: "pyval \<Rightarrow> string" where
  \<comment> \<open>a value interpolated into an f-string\<close>
  "format_val v = (case v of Str s \<Rightarrow> s | PyNone \<Rightarrow> ''None'' | Other x \<Rightarrow> formatted x)"

definition is_space :: "char \<Rightarrow> bool" where
  \<comment> \<open>\<open>str.isspace\<close> of one character: what \<open>str.strip()\<close> removes\<close>
  "is_space c =
     (let n = (of_char c :: nat)
      in (9 \<le> n \<and> n \<le> 13) \<or> (28 \<le> n \<and> n \<le> 32) \<or> n = 133 \<or> n = 160)"

definition strip :: "string \<Rightarrow> string" where
  "strip s = rev (dropWhile is_space (rev (dropWhile is_space s)))"

definition is_upper :: "char \<Rightarrow> bool" where
  \<comment> \<open>the characters that \<open>str.lower()\<close> changes: A to Z, and the accented capitals
      192 to 222 without the multiplication sign 215\<close>
  "is_upper c =
     (let n = (of_char c :: nat)
      in (65 \<le> n \<and> n \<le> 90) \<or> (192 \<le> n \<and> n \<le> 214) \<or> (216 \<le> n \<and> n \<le> 222))"

definition is_lower :: "char \<Rightarrow> bool" where
  \<comment> \<open>the small letters whose capital is a character of the model: a to z, and 224 to
      254 without the division sign 247\<close>
  "is_lower c =
     (let n = (of_char c :: nat)
      in (97 \<le> n \<and> n \<le> 122) \<or> (224 \<le> n \<and> n \<le> 246) \<or> (248 \<le> n \<and> n \<le> 254))"

definition is_cased :: "char \<Rightarrow> bool" where
  \<comment> \<open>the cased characters: the letters above, the ordinal indicators 170 and 186, the
      micro sign 181, the sharp s 223 and the y with diaeresis 255\<close>
  "is_cased c =
     (let n = (of_char c :: nat)
      in is_upper c \<or> is_lower c \<or> n = 170 \<or> n = 181 \<or> n = 186 \<or> n = 223 \<or> n = 255)"

definition lower_char :: "char \<Rightarrow> char" where
  "lower_char c = (if is_upper c then char_of ((of_char c :: nat) + 32) else c)"

definition title_char :: "char \<Rightarrow> string" where
  \<comment> \<open>the title case of one character; that of the sharp s is two letters. The title
      case of the micro sign and of the y with diaeresis is a code point above 255: a
      keyword that needs it is outside the model, and they are left as they are\<close>
  "title_char c =
     (if is_lower c then [char_of ((of_char c :: nat) - 32)]
      else if (of_char c :: nat) = 223 then ''Ss''
      else [c])"

definition lower :: "string \<Rightarrow> string" where
  \<comment> \<open>\<open>s.lower()\<close>\<close>
  "lower s = map lower_char s"

fun title_from :: "bool \<Rightarrow> string \<Rightarrow> string" where
  \<comment> \<open>\<open>str.title()\<close>; the flag says whether the previous character is cased\<close>
  "title_from prev [] = []"
| "title_from prev (c # cs) =
     (if prev then [lower_char c] else title_char c) @ title_from (is_cased c) cs"

definition title_case :: "string \<Rightarrow> string" where
  "title_case s = title_from False s"

fun contains :: "string \<Rightarrow> string \<Rightarrow> bool" where
  \<comment> \<open>\<open>sub in s\<close>\<close>
  "contains sub [] = (sub = [])"
| "contains sub (c # cs) = (prefix sub (c # cs) \<or> contains sub cs)"

function py_split :: "string \<Rightarrow> string \<Rightarrow> string list" where
  \<comment> \<open>\<open>s.split(sep)\<close> for a non-empty separator: non-overlapping matches, left to right\<close>
  "py_split sep [] = [[]]"
| "py_split sep (c # cs) =
     (if sep \<noteq> [] \<and> prefix sep (c # cs)
      then [] # py_split sep (drop (length sep) (c # cs))
      else (case py_split sep cs of [] \<Rightarrow> [[c]] | p # ps \<Rightarrow> (c # p) # ps))"
  by pat_completeness auto
termination
  by (relation "measure (\<lambda>(sep, s). length s)") (auto simp: neq_Nil_conv)

fun join :: "string \<Rightarrow> string list \<Rightarrow> string" where
  \<comment> \<open>\<open>sep.join(xs)\<close>\<close>
  "join sep [] = []"
| "join sep [x] = x"
| "join sep (x # y # ys) = x @ sep @ join sep (y # ys)"

definition is_digit :: "char \<Rightarrow> bool" where
  "is_digit c = (48 \<le> (of_char c :: nat) \<and> (of_char c :: nat) \<le> 57)"

definition digit_val :: "char \<Rightarrow> nat" where
  "digit_val c = (of_char c :: nat) - 48"

fun int_digits :: "nat \<Rightarrow> nat \<Rightarrow> bool \<Rightarrow> string \<Rightarrow> (nat \<times> nat) option" where
  \<comment> \<open>decimal digits, a single underscore allowed between two digits: the value read
      and the number of digits. The flag says whether the previous character is a digit\<close>
  "int_digits acc k ok [] = (if ok then Some (acc, k) else None)"
| "int_digits acc k ok (c # cs) =
     (if is_digit c then int_digits (10 * acc + digit_val c) (Suc k) True cs
      else if c = CHR ''_'' \<and> ok then int_digits acc k False cs
      else None)"

definition is_int_space :: "char \<Rightarrow> bool" where
  \<comment> \<open>the whitespace that \<open>int\<close> accepts around the number: that of \<open>strip\<close> without
      the separators 28 to 31\<close>
  "is_int_space c =
     (let n = (of_char c :: nat) in (9 \<le> n \<and> n \<le> 13) \<or> n = 32 \<or> n = 133 \<or> n = 160)"

definition int_max_str_digits :: nat where
  \<comment> \<open>the interpreter's default limit on the digits of a converted text\<close>
  "int_max_str_digits = 4300"

definition py_int :: "string \<Rightarrow> int option" where
  \<comment> \<open>\<open>int(s)\<close>; \<open>None\<close> stands for ValueError\<close>
  "py_int s =
     (case rev (dropWhile is_int_space (rev (dropWhile is_int_space s))) of
        [] \<Rightarrow> None
      | c # cs \<Rightarrow>
          (case int_digits 0 0 False (if c = CHR ''-'' \<or> c = CHR ''+'' then cs else c # cs) of
             None \<Rightarrow> None
           | Some (n, k) \<Rightarrow>
               if k > int_max_str_digits then None
               else if c = CHR ''-'' then Some (- int n)
               else Some (int n)))"

fun str_nat :: "nat \<Rightarrow> string" where
  \<comment> \<open>\<open>str(n)\<close> for a non-negative integer\<close>
  "str_nat n = (if n < 10 then [char_of (48 + n)] else str_nat (n div 10) @ [char_of (48 + n mod 10)])"

declare str_nat.simps [simp del]

definition py_take :: "int \<Rightarrow> 'a list \<Rightarrow> 'a list" where
  \<comment> \<open>\<open>xs[:n]\<close>; a negative bound counts from the end\<close>
  "py_take n xs = (if 0 \<le> n then take (nat n) xs else take (length xs - nat (- n)) xs)"


section \<open>models/job.py\<close>

record Job =
  title :: string
  company :: string
  description :: string
  location :: "string option"
  source_url :: "string option"

record ScoredJob = Job +
  fit_score :: int
  score_explanation :: "string option"

definition required_str :: "pyval \<Rightarrow> string option" where
  \<comment> \<open>validation of a field declared \<open>str\<close>: the text of the field, or nothing when
      the value is refused\<close>
  "required_str v = (case v of Str s \<Rightarrow> Some s | PyNone \<Rightarrow> None | Other x \<Rightarrow> as_str_field x)"

definition optional_str :: "pyval \<Rightarrow> string option option" where
  \<comment> \<open>validation of a field declared \<open>Optional[str]\<close>: \<open>None\<close> is kept\<close>
  "optional_str v = (case v of PyNone \<Rightarrow> Some None | _ \<Rightarrow> map_option Some (required_str v))"

definition refused_fields :: "pyval \<Rightarrow> pyval \<Rightarrow> pyval \<Rightarrow> pyval \<Rightarrow> pyval \<Rightarrow> string list" where
  "refused_fields t c d l u =
     (if required_str t = None then [''title''] else []) @
     (if required_str c = None then [''company''] else []) @
     (if required_str d = None then [''description''] else []) @
     (if optional_str l = None then [''location''] else []) @
     (if optional_str u = None then [''source_url''] else [])"

definition new_ScoredJob ::
  "pyval \<Rightarrow> pyval \<Rightarrow> pyval \<Rightarrow> pyval \<Rightarrow> pyval \<Rightarrow> int \<Rightarrow> string \<Rightarrow> exn + ScoredJob" where
  \<comment> \<open>the constructor call \<open>ScoredJob(title=..., ..., score_explanation=...)\<close>: all the
      fields are validated, and one exception names those refused\<close>
  "new_ScoredJob t c d l u score expl =
     (case required_str t of None \<Rightarrow> Inl (ValidationError (refused_fields t c d l u)) | Some t' \<Rightarrow>
      case required_str c of None \<Rightarrow> Inl (ValidationError (refused_fields t c d l u)) | Some c' \<Rightarrow>
      case required_str d of None \<Rightarrow> Inl (ValidationError (refused_fields t c d l u)) | Some d' \<Rightarrow>
      case optional_str l of None \<Rightarrow> Inl (ValidationError (refused_fields t c d l u)) | Some l' \<Rightarrow>
      case optional_str u of None \<Rightarrow> Inl (ValidationError (refused_fields t c d l u)) | Some u' \<Rightarrow>
        Inr \<lparr> title = t', company = c', description = d', location = l', source_url = u',
              fit_score = score, score_explanation = Some expl \<rparr>)"


section \<open>services/ai\_matcher.py\<close>

text \<open>
  A provider client answers a prompt with a text or fails. The first argument is the
  number of the batch the call is made for (from 0), so that two calls with the same
  prompt need not get the same answer.
\<close>

type_synonym client = "nat \<Rightarrow> string \<Rightarrow> exn + string"

record AIMatcher =
  openai_client :: "client option"
  claude_client :: "client option"

record user_profile =
  resume_content :: string
  skills :: "string list"
  experience :: string

definition scored_from :: "job_dict \<Rightarrow> int \<Rightarrow> string \<Rightarrow> exn + ScoredJob" where
  \<comment> \<open>the construction shared by \<open>_parse_ai_scores\<close> and \<open>_generate_mock_scores\<close>:
      the three subscripts are evaluated before the constructor validates\<close>
  "scored_from job score expl =
     bind (subscript job ''title'') (\<lambda>t.
     bind (subscript job ''company'') (\<lambda>c.
     bind (subscript job ''description'') (\<lambda>d.
       new_ScoredJob t c d (dict_get job ''location'') (dict_get job ''source_url'') score expl)))"

definition mock_score :: "nat \<Rightarrow> int" where
  "mock_score i = (let base_score = 85 - (int i * 3) in max 40 (min 95 (base_score + (int i mod 3) * 5)))"

definition mock_explanation :: string where
  "mock_explanation = ''Mock AI analysis: Good match based on job requirements and candidate profile.''"

fun mock_loop :: "nat \<Rightarrow> job_dict list \<Rightarrow> exn + ScoredJob list" where
  \<comment> \<open>\<open>for i, job in enumerate(jobs)\<close>, from index \<open>i\<close> on\<close>
  "mock_loop i [] = Inr []"
| "mock_loop i (job # jobs) =
     bind (scored_from job (mock_score i) mock_explanation) (\<lambda>sj.
     bind (mock_loop (Suc i) jobs) (\<lambda>rest. Inr (sj # rest)))"

definition generate_mock_scores :: "job_dict list \<Rightarrow> exn + ScoredJob list" where
  "generate_mock_scores jobs = mock_loop 0 jobs"

definition default_explanation :: string where
  "default_explanation = ''AI analysis completed''"

definition job_marker :: "nat \<Rightarrow> string" where
  \<comment> \<open>\<open>f"Job {i+1}:"\<close>\<close>
  "job_marker i = ''Job '' @ str_nat (i + 1) @ '':''"

definition parse_line :: "string \<Rightarrow> (int \<times> string) option" where
  \<comment> \<open>the body of \<open>if f"Job {i+1}:" in line\<close>: \<open>None\<close> when there are fewer than two
      parts or when the bare \<open>except\<close> is taken (IndexError, ValueError)\<close>
  "parse_line line =
     (let parts = py_split '' - '' line in
      if length parts \<ge> 2 then
        (case py_split '':'' (parts ! 0) of
           _ # score_part # _ \<Rightarrow>
             (case py_int (strip score_part) of
                None \<Rightarrow> None
              | Some score \<Rightarrow> Some (score, strip (parts ! 1)))
         | _ \<Rightarrow> None)
      else None)"

definition line_score :: "string list \<Rightarrow> nat \<Rightarrow> int \<times> string" where
  \<comment> \<open>the inner \<open>for line in lines\<close> with its \<open>break\<close>: only the first line that
      contains the marker is looked at\<close>
  "line_score lines i =
     (case find (contains (job_marker i)) lines of
        None \<Rightarrow> (50, default_explanation)
      | Some line \<Rightarrow>
          (case parse_line line of
             None \<Rightarrow> (50, default_explanation)
           | Some r \<Rightarrow> r))"

fun parse_loop :: "string list \<Rightarrow> nat \<Rightarrow> job_dict list \<Rightarrow> exn + ScoredJob list" where
  \<comment> \<open>\<open>for i, job in enumerate(jobs)\<close>, from index \<open>i\<close> on\<close>
  "parse_loop lines i [] = Inr []"
| "parse_loop lines i (job # jobs) =
     (let (score, explanation) = line_score lines i;
          score = max 0 (min 100 score)
      in bind (scored_from job score explanation) (\<lambda>sj.
         bind (parse_loop lines (Suc i) jobs) (\<lambda>rest. Inr (sj # rest))))"

definition parse_ai_scores :: "job_dict list \<Rightarrow> string \<Rightarrow> exn + ScoredJob list" where
  "parse_ai_scores jobs ai_response =
     (case parse_loop (py_split ''\<newline>'' (strip ai_response)) 0 jobs of
        Inr scored_jobs \<Rightarrow> Inr scored_jobs
      | Inl e \<Rightarrow> generate_mock_scores jobs)"

definition slice_description :: "pyval \<Rightarrow> exn + string" where
  \<comment> \<open>\<open>job['description'][:500]\<close>\<close>
  "slice_description v =
     (case v of
        Str s \<Rightarrow> Inr (take 500 s)
      | PyNone \<Rightarrow> Inl (TypeError ''slice'')
      | Other x \<Rightarrow> (case sliced x of None \<Rightarrow> Inl (TypeError ''slice'') | Some s \<Rightarrow> Inr s))"

fun prompt_jobs :: "nat \<Rightarrow> job_dict list \<Rightarrow> exn + string" where
  \<comment> \<open>\<open>for i, job in enumerate(jobs, 1)\<close>, from number \<open>i\<close> on\<close>
  "prompt_jobs i [] = Inr []"
| "prompt_jobs i (job # jobs) =
     bind (subscript job ''title'') (\<lambda>t.
     bind (subscript job ''company'') (\<lambda>c.
     bind (subscript job ''description'') (\<lambda>d.
     bind (slice_description d) (\<lambda>d'.
     bind (prompt_jobs (Suc i) jobs) (\<lambda>rest.
       Inr (''\<newline>Job '' @ str_nat i @ '':\<newline>'' @
            ''Title: '' @ format_val t @ ''\<newline>'' @
            ''Company: '' @ format_val c @ ''\<newline>'' @
            ''Description: '' @ d' @ ''...\<newline>'' @
            ''Location: '' @ format_val (dict_get_default job ''location'' (Str ''Not specified'')) @
            ''\<newline>\<newline>'' @ rest))))))"

definition prompt_header :: "user_profile \<Rightarrow> string" where
  "prompt_header profile =
     (let skills_str = (if skills profile \<noteq> [] then join '', '' (skills profile) else ''Not specified'')
      in ''\<newline>Please analyze the following job postings against this candidate'' @ [CHR 0x27] @
         ''s profile and provide fit scores from 0-100 for each job.\<newline>\<newline>'' @
         ''CANDIDATE PROFILE:\<newline>'' @
         ''Skills: '' @ skills_str @ ''\<newline>'' @
         ''Experience: '' @ experience profile @ ''\<newline>'' @
         ''Resume: '' @ resume_content profile @ ''\<newline>\<newline>'' @
         ''JOBS TO SCORE:\<newline>'')"

definition prompt_footer :: string where
  "prompt_footer =
     ''\<newline>For each job, provide a score from 0-100 where:\<newline>'' @
     ''- 90-100: Excellent match (perfect skills alignment, ideal role)\<newline>'' @
     ''- 80-89: Very good match (strong skills overlap, good role fit)\<newline>'' @
     ''- 70-79: Good match (decent skills alignment, some missing elements)\<newline>'' @
     ''- 60-69: Fair match (some relevant skills, role partially suitable)\<newline>'' @
     ''- 50-59: Below average match (limited relevance)\<newline>'' @
     ''- 0-49: Poor match (little to no alignment)\<newline>\<newline>'' @
     ''Respond in this exact format for each job:\<newline>'' @
     ''Job 1: [score] - [brief explanation]\<newline>'' @
     ''Job 2: [score] - [brief explanation]\<newline>'' @
     ''etc.\<newline>''"

definition create_scoring_prompt :: "user_profile \<Rightarrow> job_dict list \<Rightarrow> exn + string" where
  "create_scoring_prompt profile jobs =
     bind (prompt_jobs 1 jobs) (\<lambda>body. Inr (prompt_header profile @ body @ prompt_footer))"

definition call_client :: "client option \<Rightarrow> nat \<Rightarrow> string \<Rightarrow> exn + string" where
  \<comment> \<open>the request to the provider; a missing client object raises on attribute access\<close>
  "call_client cl n prompt =
     (case cl of None \<Rightarrow> Inl (AttributeError ''client'') | Some complete \<Rightarrow> complete n prompt)"

definition score_with_openai ::
  "AIMatcher \<Rightarrow> nat \<Rightarrow> user_profile \<Rightarrow> job_dict list \<Rightarrow> exn + ScoredJob list" where
  "score_with_openai self n profile jobs =
     (case bind (create_scoring_prompt profile jobs) (\<lambda>prompt.
           bind (call_client (openai_client self) n prompt) (\<lambda>content.
             parse_ai_scores jobs content)) of
        Inr scored_jobs \<Rightarrow> Inr scored_jobs
      | Inl e \<Rightarrow> generate_mock_scores jobs)"

definition score_with_claude ::
  "AIMatcher \<Rightarrow> nat \<Rightarrow> user_profile \<Rightarrow> job_dict list \<Rightarrow> exn + ScoredJob list" where
  "score_with_claude self n profile jobs =
     (case bind (create_scoring_prompt profile jobs) (\<lambda>prompt.
           bind (call_client (claude_client self) n prompt) (\<lambda>content.
             parse_ai_scores jobs content)) of
        Inr scored_jobs \<Rightarrow> Inr scored_jobs
      | Inl e \<Rightarrow> generate_mock_scores jobs)"

definition score_job_batch ::
  "AIMatcher \<Rightarrow> nat \<Rightarrow> user_profile \<Rightarrow> job_dict list \<Rightarrow> exn + ScoredJob list" where
  "score_job_batch self n profile jobs =
     (case (if openai_client self \<noteq> None then score_with_openai self n profile jobs
            else if claude_client self \<noteq> None then score_with_claude self n profile jobs
            else generate_mock_scores jobs) of
        Inr scored_jobs \<Rightarrow> Inr scored_jobs
      | Inl e \<Rightarrow> generate_mock_scores jobs)"

definition extract_resume_content :: "(string \<Rightarrow> exn + unit) \<Rightarrow> string \<Rightarrow> string" where
  \<comment> \<open>the first argument is the outcome of \<open>requests.get\<close> and \<open>raise_for_status\<close>\<close>
  "extract_resume_content requests_get url =
     (case requests_get url of
        Inr _ \<Rightarrow> ''Resume content extracted successfully. Skills and experience available for matching.''
      | Inl e \<Rightarrow> ''Resume content not available for analysis.'')"

function score_loop ::
  "AIMatcher \<Rightarrow> user_profile \<Rightarrow> job_dict list \<Rightarrow> nat \<Rightarrow> ScoredJob list \<Rightarrow> exn + ScoredJob list" where
  \<comment> \<open>\<open>for i in range(0, len(jobs), batch_size)\<close> with \<open>batch_size = 5\<close>, from \<open>i\<close> on;
      the pause between batches is not modelled\<close>
  "score_loop self profile jobs i scored_jobs =
     (if i < length jobs
      then (case score_job_batch self (i div 5) profile (take 5 (drop i jobs)) of
              Inl e \<Rightarrow> Inl e
            | Inr batch_scores \<Rightarrow> score_loop self profile jobs (i + 5) (scored_jobs @ batch_scores))
      else Inr scored_jobs)"
  by pat_completeness auto
termination
  by (relation "measure (\<lambda>(self, profile, jobs, i, scored_jobs). length jobs - i)") auto

declare score_loop.simps [simp del]

definition score_jobs ::
  "AIMatcher \<Rightarrow> (string \<Rightarrow> exn + unit) \<Rightarrow> string \<Rightarrow> job_dict list \<Rightarrow> string list option \<Rightarrow> string
     \<Rightarrow> exn + ScoredJob list" where
  "score_jobs self requests_get url jobs user_skills user_experience =
     (let content = extract_resume_content requests_get url;
          profile = \<lparr> resume_content = content,
                      skills = (case user_skills of None \<Rightarrow> [] | Some ss \<Rightarrow> ss),
                      experience = user_experience \<rparr>
      in case score_loop self profile jobs 0 [] of
           Inr scored_jobs \<Rightarrow> Inr scored_jobs
         | Inl e \<Rightarrow> generate_mock_scores jobs)"


section \<open>services/job\_scraper.py\<close>

text \<open>
  What the scraper reads from outside is a parameter: the answer of the JSearch request,
  whether the HTML parser can be imported, the page Indeed answers with, and the draws of
  the random generator. A page is the function from a CSS selector to the elements it
  selects; a card gives, for a selector, the stripped text of the first element it
  selects, and its \<open>data-jk\<close> attribute. The random pause before the Indeed request is
  not modelled.
\<close>

record jsearch_response =
  status :: nat
  json_data :: "exn + job_dict list"

record card =
  select_one :: "string \<Rightarrow> string option"
  data_jk :: pyval

type_synonym page = "string \<Rightarrow> card list"

record JobScraper =
  jsearch_api_key :: "string option"
  jsearch_get :: "string \<Rightarrow> exn + jsearch_response"
  bs4_import :: "exn + unit"
  indeed_get :: "string \<Rightarrow> string \<Rightarrow> int \<Rightarrow> exn + page"
  random_draw :: "nat \<Rightarrow> nat"

definition has_api_key :: "JobScraper \<Rightarrow> bool" where
  \<comment> \<open>\<open>if self.jsearch_api_key\<close>\<close>
  "has_api_key self = (case jsearch_api_key self of None \<Rightarrow> False | Some k \<Rightarrow> k \<noteq> [])"

definition job_of ::
  "string \<Rightarrow> string \<Rightarrow> string \<Rightarrow> pyval \<Rightarrow> pyval \<Rightarrow> string \<Rightarrow> job_dict" where
  \<comment> \<open>the dictionary literal with the six keys that every source builds\<close>
  "job_of t c d l u src =
     map_of [(''title'', Str t), (''company'', Str c), (''description'', Str d),
             (''location'', l), (''source_url'', u), (''source'', Str src)]"

definition get_stripped :: "job_dict \<Rightarrow> string \<Rightarrow> exn + string" where
  \<comment> \<open>\<open>job_data.get(k, "").strip()\<close>\<close>
  "get_stripped job_data k =
     (case dict_get_default job_data k (Str []) of
        Str s \<Rightarrow> Inr (strip s)
      | _ \<Rightarrow> Inl (AttributeError ''strip''))"

definition default_description :: "string \<Rightarrow> string \<Rightarrow> string" where
  "default_description c t = ''Job opportunity at '' @ c @ '' for '' @ t @ '' position.''"

definition is_text :: "pyval \<Rightarrow> bool" where
  "is_text v = (case v of Str s \<Rightarrow> True | _ \<Rightarrow> False)"

definition join_values :: "string \<Rightarrow> pyval list \<Rightarrow> exn + string" where
  \<comment> \<open>\<open>sep.join(vs)\<close>: every item has to be a text\<close>
  "join_values sep vs =
     (if list_all is_text vs then Inr (join sep (map format_val vs)) else Inl (TypeError ''join''))"

definition parse_jsearch_job :: "job_dict \<Rightarrow> job_dict option" where
  "parse_jsearch_job job_data =
     (case bind (get_stripped job_data ''job_title'') (\<lambda>t.
           bind (get_stripped job_data ''employer_name'') (\<lambda>c.
           bind (get_stripped job_data ''job_description'') (\<lambda>d.
             let location_parts =
                   filter truthy [dict_get_default job_data ''job_city'' (Str []),
                                  dict_get_default job_data ''job_state'' (Str []),
                                  dict_get_default job_data ''job_country'' (Str [])]
             in bind (join_values '', '' location_parts) (\<lambda>full_location.
                  let u = (if truthy (dict_get job_data ''job_apply_link'')
                           then dict_get job_data ''job_apply_link''
                           else dict_get_default job_data ''job_url'' (Str []))
                  in if t = [] \<or> c = [] then Inr None
                     else Inr (Some (job_of t c
                            (take 1000 (if d = [] then default_description c t else d))
                            (Str full_location) u ''jsearch'')))))) of
        Inr r \<Rightarrow> r
      | Inl e \<Rightarrow> None)"

definition scrape_jsearch_jobs :: "JobScraper \<Rightarrow> string \<Rightarrow> string \<Rightarrow> int \<Rightarrow> job_dict list" where
  "scrape_jsearch_jobs self keyword loc limit =
     (case (if \<not> has_api_key self then Inr []
            else bind (jsearch_get self (strip (keyword @ '' '' @ loc))) (\<lambda>response.
                 if status response = 200
                 then bind (json_data response) (\<lambda>jobs_data.
                        Inr (List.map_filter parse_jsearch_job (py_take limit jobs_data)))
                 else Inr [])) of
        Inr jobs \<Rightarrow> jobs
      | Inl e \<Rightarrow> [])"

fun first_text :: "card \<Rightarrow> string list \<Rightarrow> string" where
  \<comment> \<open>the loop over the selector candidates of one field\<close>
  "first_text cd [] = []"
| "first_text cd (selector # selectors) =
     (case select_one cd selector of
        Some text \<Rightarrow> text
      | None \<Rightarrow> first_text cd selectors)"

definition extract_indeed_job_from_card :: "card \<Rightarrow> job_dict option" where
  \<open>extract_indeed_job_from_card cd =
     (let t = first_text cd [''h2.jobTitle a span'', ''h2.jobTitle span'', ''.jobTitle a'',
                             ''[data-testid="job-title"]''];
          c = first_text cd [''.companyName'', ''[data-testid="company-name"]'', ''.company''];
          l = first_text cd [''.companyLocation'', ''[data-testid="job-location"]'', ''.location''];
          d = first_text cd [''.summary'', ''.job-snippet'', ''[data-testid="job-snippet"]''];
          job_key = data_jk cd;
          u = (if truthy job_key then ''https://www.indeed.com/viewjob?jk='' @ format_val job_key
               else [])
      in if t = [] \<or> c = [] then None
         else Some (job_of t c (take 1000 (if d = [] then default_description c t else d))
                      (Str l) (Str u) ''indeed''))\<close>

fun select_cards :: "page \<Rightarrow> string list \<Rightarrow> card list" where
  \<comment> \<open>the loop over \<open>job_selectors\<close>, left with the first non-empty selection\<close>
  "select_cards soup [] = []"
| "select_cards soup (selector # selectors) =
     (case soup selector of
        [] \<Rightarrow> select_cards soup selectors
      | cd # cds \<Rightarrow> cd # cds)"

definition scrape_indeed_jobs :: "JobScraper \<Rightarrow> string \<Rightarrow> string \<Rightarrow> int \<Rightarrow> job_dict list" where
  "scrape_indeed_jobs self keyword loc limit =
     (case bind (bs4_import self) (\<lambda>_.
           bind (indeed_get self keyword loc (min 50 limit)) (\<lambda>soup.
             let job_cards = select_cards soup [''div[data-jk]'', ''.job_seen_beacon'',
                               ''.jobsearch-SerpJobCard'', ''.slider_container .slider_item'']
             in if job_cards = [] then Inr []
                else Inr (List.map_filter extract_indeed_job_from_card (py_take limit job_cards)))) of
        Inr jobs \<Rightarrow> jobs
      | Inl e \<Rightarrow> [])"

definition lower_strip :: "pyval \<Rightarrow> exn + string" where
  \<comment> \<open>\<open>v.lower().strip()\<close>\<close>
  "lower_strip v = (case v of Str s \<Rightarrow> Inr (strip (lower s)) | _ \<Rightarrow> Inl (AttributeError ''lower''))"

definition dedup_key :: "job_dict \<Rightarrow> exn + string" where
  \<comment> \<open>\<open>f"{job['title'].lower().strip()}|{job['company'].lower().strip()}"\<close>\<close>
  "dedup_key job =
     bind (subscript job ''title'') (\<lambda>t.
     bind (lower_strip t) (\<lambda>t'.
     bind (subscript job ''company'') (\<lambda>c.
     bind (lower_strip c) (\<lambda>c'.
       Inr (t' @ ''|'' @ c')))))"

fun dedup_loop :: "string set \<Rightarrow> job_dict list \<Rightarrow> exn + job_dict list" where
  \<comment> \<open>\<open>for job in jobs\<close> with the set \<open>seen\<close>; the result is what the loop appends to
      \<open>unique_jobs\<close> from here on\<close>
  "dedup_loop seen [] = Inr []"
| "dedup_loop seen (job # jobs) =
     bind (dedup_key job) (\<lambda>key.
       if key \<notin> seen
       then bind (dedup_loop (insert key seen) jobs) (\<lambda>rest. Inr (job # rest))
       else dedup_loop seen jobs)"

definition remove_duplicates :: "job_dict list \<Rightarrow> exn + job_dict list" where
  "remove_duplicates jobs = dedup_loop {} jobs"

definition companies :: "string list" where
  "companies = [''TechCorp'', ''InnovateLab'', ''DataSoft'', ''CloudSystems'', ''AIStartup'',
                ''DevStudio'', ''CodeCraft'', ''ByteDance'', ''TechFlow'', ''DigitalHub'',
                ''Microsoft'', ''Google'', ''Amazon'', ''Meta'', ''Apple'']"

definition job_types :: "string list" where
  "job_types = [''Senior'', ''Junior'', ''Lead'', ''Principal'', ''Staff'']"

definition mock_cities :: "string list" where
  "mock_cities = [''San Francisco, CA'', ''New York, NY'', ''Seattle, WA'', ''Austin, TX'', ''Remote'']"

definition random_choice :: "nat \<Rightarrow> 'a list \<Rightarrow> 'a" where
  \<comment> \<open>\<open>random.choice(xs)\<close> on a non-empty list, for the draw \<open>r\<close>\<close>
  "random_choice r xs = xs ! (r mod length xs)"

definition mock_description :: "string \<Rightarrow> string \<Rightarrow> string" where
  "mock_description keyword c =
     ''We are looking for a skilled '' @ keyword @ '' to join our team at '' @ c @ ''. '' @
     ''The ideal candidate will have experience in '' @ lower keyword @ '' and related technologies. '' @
     ''This is a great opportunity to work with cutting-edge technology and grow your career. '' @
     ''Responsibilities include developing software solutions, collaborating with cross-functional teams, '' @
     ''and contributing to our innovative products.''"

fun mock_jobs_loop :: "(nat \<Rightarrow> nat) \<Rightarrow> string \<Rightarrow> string \<Rightarrow> nat \<Rightarrow> nat \<Rightarrow> nat \<Rightarrow> job_dict list" where
  \<comment> \<open>\<open>for i in range(...)\<close>: \<open>n\<close> rounds are left, round \<open>i\<close> is next and \<open>k\<close> draws
      have been made; the city is drawn only when no location was asked for\<close>
  "mock_jobs_loop draw keyword loc k i 0 = []"
| "mock_jobs_loop draw keyword loc k i (Suc n) =
     (let c = random_choice (draw k) companies;
          job_type = random_choice (draw (k + 1)) job_types;
          t = job_type @ '' '' @ title_case keyword;
          d = mock_description keyword c;
          l = (if loc \<noteq> [] then loc else random_choice (draw (k + 2)) mock_cities);
          k' = (if loc \<noteq> [] then k + 2 else k + 3);
          u = ''https://example.com/job/'' @ str_nat (i + 1)
      in job_of t c d (Str l) (Str u) ''mock'' # mock_jobs_loop draw keyword loc k' (Suc i) n)"

definition get_mock_jobs :: "JobScraper \<Rightarrow> string \<Rightarrow> string \<Rightarrow> int \<Rightarrow> job_dict list" where
  "get_mock_jobs self keyword loc limit =
     mock_jobs_loop (random_draw self) keyword loc 0 0 (nat (min limit 15))"

definition scrape_jobs_body :: "JobScraper \<Rightarrow> string \<Rightarrow> string \<Rightarrow> int \<Rightarrow> exn + job_dict list" where
  \<comment> \<open>the \<open>try\<close> block of \<open>scrape_jobs\<close>\<close>
  "scrape_jobs_body self keyword loc limit =
     (let all_jobs = (if has_api_key self then scrape_jsearch_jobs self keyword loc limit else []);
          all_jobs = (if int (length all_jobs) < limit
                      then all_jobs @ scrape_indeed_jobs self keyword loc (limit - int (length all_jobs))
                      else all_jobs)
      in bind (remove_duplicates all_jobs) (\<lambda>unique_jobs. Inr (py_take limit unique_jobs)))"

definition scrape_jobs :: "JobScraper \<Rightarrow> string \<Rightarrow> string \<Rightarrow> int \<Rightarrow> exn + job_dict list" where
  "scrape_jobs self keyword loc limit =
     (case scrape_jobs_body self keyword loc limit of
        Inr final_jobs \<Rightarrow> Inr final_jobs
      | Inl e \<Rightarrow> Inr (get_mock_jobs self keyword loc limit))"


section \<open>main.py\<close>

record scrape_response =
  resp_jobs :: "job_dict list"
  resp_count :: nat
  resp_keyword :: string
  resp_location :: string
  resp_sources :: "string list"

definition scrape_jobs_endpoint ::
  "JobScraper \<Rightarrow> string \<Rightarrow> string \<Rightarrow> int \<Rightarrow> exn + scrape_response" where
  \<comment> \<open>\<open>GET /scrape_jobs\<close>; the rejection of a blank keyword is raised inside the \<open>try\<close>
      block and so leaves through its handler\<close>
  "scrape_jobs_endpoint job_scraper keyword loc limit =
     (case (if strip keyword = [] then Inl (HTTPException 400 ''Keyword is required'')
            else bind (scrape_jobs job_scraper (strip keyword) (strip loc) (min limit 50)) (\<lambda>jobs.
                   Inr \<lparr> resp_jobs = jobs, resp_count = length jobs, resp_keyword = keyword,
                         resp_location = loc, resp_sources = [''jsearch'', ''indeed'', ''mock''] \<rparr>)) of
        Inr r \<Rightarrow> Inr r
      | Inl e \<Rightarrow> Inl (HTTPFailure 500 ''Job scraping failed: '' e))"

record score_response =
  resp_scored_jobs :: "ScoredJob list"
  resp_scored_count :: nat

definition sort_by_fit_score :: "ScoredJob list \<Rightarrow> ScoredJob list" where
  \<comment> \<open>\<open>scored_jobs.sort(key=lambda job: job.fit_score, reverse=True)\<close>: the library sort
      is stable, also when reversed\<close>
  "sort_by_fit_score scored_jobs = sort_key (\<lambda>job. - fit_score job) scored_jobs"

definition score_jobs_endpoint ::
  "AIMatcher \<Rightarrow> (string \<Rightarrow> exn + unit) \<Rightarrow> string \<Rightarrow> job_dict list \<Rightarrow> string list option
     \<Rightarrow> string option \<Rightarrow> exn + score_response" where
  \<comment> \<open>\<open>POST /score_jobs\<close> on the fields of the request; the mean score of the answer is a
      floating-point number and is left out\<close>
  "score_jobs_endpoint ai_matcher requests_get url jobs user_skills user_experience =
     (case (if jobs = [] then Inl (HTTPException 400 ''Jobs list is required'')
            else if url = [] then Inl (HTTPException 400 ''Resume URL is required'')
            else bind (score_jobs ai_matcher requests_get url jobs
                         (Some (case user_skills of None \<Rightarrow> [] | Some ss \<Rightarrow> ss))
                         (case user_experience of None \<Rightarrow> [] | Some x \<Rightarrow> x)) (\<lambda>scored_jobs.
                   let scored_jobs = sort_by_fit_score scored_jobs
                   in Inr \<lparr> resp_scored_jobs = scored_jobs,
                            resp_scored_count = length scored_jobs \<rparr>)) of
        Inr r \<Rightarrow> Inr r
      | Inl e \<Rightarrow> Inl (HTTPFailure 500 ''Job scoring failed: '' e))"


section \<open>Notions used to state the properties\<close>

text \<open>
  A job dictionary has its required fields when title, company and description hold
  texts; it is typed as \<open>models/job.py\<close> types a job when, moreover, location and source
  URL are absent, \<open>None\<close> or texts. A scored job keeps the fields of a dictionary when
  its five fields are the texts stored there, an absent or \<open>None\<close> optional field being
  \<open>None\<close>.
\<close>

definition is_str :: "pyval option \<Rightarrow> bool" where
  "is_str v = (case v of Some (Str s) \<Rightarrow> True | _ \<Rightarrow> False)"

definition has_required :: "job_dict \<Rightarrow> bool" where
  "has_required job = (is_str (job ''title'') \<and> is_str (job ''company'') \<and> is_str (job ''description''))"

definition is_opt_str :: "pyval option \<Rightarrow> bool" where
  "is_opt_str v = (case v of Some (Other x) \<Rightarrow> False | _ \<Rightarrow> True)"

definition typed_job :: "job_dict \<Rightarrow> bool" where
  "typed_job job =
     (has_required job \<and> is_opt_str (job ''location'') \<and> is_opt_str (job ''source_url''))"

definition field_of :: "job_dict \<Rightarrow> string \<Rightarrow> string option" where
  "field_of job k = (case job k of Some (Str s) \<Rightarrow> Some s | _ \<Rightarrow> None)"

definition keeps_fields :: "job_dict \<Rightarrow> ScoredJob \<Rightarrow> bool" where
  "keeps_fields job sj =
     (field_of job ''title'' = Some (title sj) \<and>
      field_of job ''company'' = Some (company sj) \<and>
      field_of job ''description'' = Some (description sj) \<and>
      field_of job ''location'' = location sj \<and>
      field_of job ''source_url'' = source_url sj)"

definition scored :: "ScoredJob \<Rightarrow> int \<times> string option" where
  \<comment> \<open>what scoring added to a job\<close>
  "scored sj = (fit_score sj, score_explanation sj)"

definition source_of :: "job_dict \<Rightarrow> pyval option" where
  "source_of job = job ''source''"

definition valid_scores :: "job_dict list \<Rightarrow> ScoredJob list \<Rightarrow> bool" where
  "valid_scores jobs sjs =
     (length sjs = length jobs \<and>
      (\<forall>k<length jobs. keeps_fields (jobs ! k) (sjs ! k) \<and> 0 \<le> fit_score (sjs ! k) \<and> fit_score (sjs ! k) \<le> 100))"

text \<open>
  The identity of a posting: the pair of its lower-cased title and company, and the key
  that \<open>_remove_duplicates\<close> computes from it. The first occurrences of a list are the
  records at the positions whose key occurs at no earlier position (and is not in the
  set of keys seen before the list), in the order of the list.
\<close>

definition text_of :: "job_dict \<Rightarrow> string \<Rightarrow> string" where
  "text_of job k = (case job k of Some (Str s) \<Rightarrow> s | _ \<Rightarrow> [])"

definition well_keyed :: "job_dict \<Rightarrow> bool" where
  "well_keyed job = (is_str (job ''title'') \<and> is_str (job ''company''))"

definition norm_pair :: "job_dict \<Rightarrow> string \<times> string" where
  "norm_pair job = (lower (text_of job ''title''), lower (text_of job ''company''))"

definition key_of :: "job_dict \<Rightarrow> string" where
  "key_of job = (case dedup_key job of Inr key \<Rightarrow> key | Inl e \<Rightarrow> [])"

definition first_from :: "string set \<Rightarrow> job_dict list \<Rightarrow> job_dict list" where
  "first_from seen jobs =
     map (\<lambda>i. jobs ! i)
       (filter (\<lambda>i. key_of (jobs ! i) \<notin> seen \<union> key_of ` set (take i jobs)) [0..<length jobs])"

definition first_occurrences :: "job_dict list \<Rightarrow> job_dict list" where
  "first_occurrences jobs = first_from {} jobs"

definition collected_jobs :: "JobScraper \<Rightarrow> string \<Rightarrow> string \<Rightarrow> int \<Rightarrow> job_dict list" where
  \<comment> \<open>the value of \<open>all_jobs\<close> when \<open>scrape_jobs\<close> reaches \<open>_remove_duplicates\<close>\<close>
  "collected_jobs self keyword loc limit =
     (let all_jobs = (if has_api_key self then scrape_jsearch_jobs self keyword loc limit else [])
      in if int (length all_jobs) < limit
         then all_jobs @ scrape_indeed_jobs self keyword loc (limit - int (length all_jobs))
         else all_jobs)"

text \<open>
  The reading of one answer line, stated on the text of the line and not on the list of
  its parts: the line is cut at its first separator \<open>" - "\<close>; the score is the integer
  between the first colon of the part before it and the next colon (or the end of that
  part); the explanation is the text after the separator up to the next separator (or
  the end of the line), stripped.
\<close>

fun cut :: "string \<Rightarrow> string \<Rightarrow> (string \<times> string) option" where
  \<comment> \<open>the text before and after the first occurrence of \<open>sep\<close>, if there is one\<close>
  "cut sep [] = None"
| "cut sep (c # cs) =
     (if prefix sep (c # cs) then Some ([], drop (length sep) (c # cs))
      else map_option (\<lambda>(a, b). (c # a, b)) (cut sep cs))"

definition before :: "string \<Rightarrow> string \<Rightarrow> string" where
  "before sep s = (case cut sep s of None \<Rightarrow> s | Some (a, b) \<Rightarrow> a)"

definition read_line :: "string \<Rightarrow> (int \<times> string) option" where
  "read_line line =
     (case cut '' - '' line of
        None \<Rightarrow> None
      | Some (head, rest) \<Rightarrow>
          (case cut '':'' head of
             None \<Rightarrow> None
           | Some (label, after) \<Rightarrow>
               (case py_int (strip (before '':'' after)) of
                  None \<Rightarrow> None
                | Some n \<Rightarrow> Some (n, strip (before '' - '' rest)))))"


section \<open>Example inputs\<close>

definition job_a :: job_dict where
  "job_a = map_of [(''title'', Str ''Go Developer''), (''company'', Str ''Acme''),
                   (''description'', Str ''Build services in Go.''), (''location'', Str ''Remote'')]"

definition job_b :: job_dict where
  "job_b = map_of [(''title'', Str ''Backend Engineer''), (''company'', Str ''Initech''),
                   (''description'', Str ''Maintain the billing backend.''),
                   (''source_url'', Str ''https://example.com/b'')]"




definition six_jobs :: "job_dict list" where
  "six_jobs = [job_a, job_b, job_a, job_b, job_a, job_b]"

definition no_provider :: AIMatcher where
  "no_provider = \<lparr> openai_client = None, claude_client = None \<rparr>"

definition canned_client :: "string \<Rightarrow> client" where
  "canned_client text n prompt = Inr text"

definition openai_only :: "string \<Rightarrow> AIMatcher" where
  "openai_only text = \<lparr> openai_client = Some (canned_client text), claude_client = None \<rparr>"

definition resume_unavailable :: "string \<Rightarrow> exn + unit" where
  "resume_unavailable url = Inl (RequestError ''connection refused'')"

definition two_line_answer :: string where
  "two_line_answer = ''Job 1: 90 - Close match\<newline>Job 2: 77 - Strong skills match''"

definition out_of_range_answer :: string where
  "out_of_range_answer = ''Job 1: 150 - Great\<newline>Job 2: -20 - Poor''"

definition dashed_answer :: string where
  "dashed_answer = ''Job 1: 80 - Good fit - strong Python''"

definition failing_get :: "string \<Rightarrow> exn + jsearch_response" where
  "failing_get query = Inl (RequestError ''timeout'')"

definition failing_page :: "string \<Rightarrow> string \<Rightarrow> int \<Rightarrow> exn + page" where
  "failing_page keyword loc n = Inl (RequestError ''blocked'')"

definition zero_draw :: "nat \<Rightarrow> nat" where
  "zero_draw k = 0"

definition offline :: JobScraper where
  "offline = \<lparr> jsearch_api_key = None, jsearch_get = failing_get, bs4_import = Inr (),
               indeed_get = failing_page, random_draw = zero_draw \<rparr>"

definition hit :: "string \<Rightarrow> job_dict" where
  "hit t = map_of [(''job_title'', Str t), (''employer_name'', Str ''Acme''),
                   (''job_description'', Str ''Build services in Go.'')]"

definition three_hits_get :: "string \<Rightarrow> exn + jsearch_response" where
  "three_hits_get query =
     Inr \<lparr> status = 200, json_data = Inr [hit ''Go Developer'', hit ''Go Engineer'', hit ''Go Lead''] \<rparr>"

definition bar_hit :: "string \<Rightarrow> string \<Rightarrow> job_dict" where
  "bar_hit t c = map_of [(''job_title'', Str t), (''employer_name'', Str c),
                         (''job_description'', Str ''Build services in Go.'')]"

definition bar_hits_get :: "string \<Rightarrow> exn + jsearch_response" where
  "bar_hits_get query =
     Inr \<lparr> status = 200,
           json_data = Inr [bar_hit ''Developer|Remote'' ''Acme'', bar_hit ''Developer'' ''Remote|Acme''] \<rparr>"

definition bar_hits :: JobScraper where
  "bar_hits = \<lparr> jsearch_api_key = Some ''key'', jsearch_get = bar_hits_get, bs4_import = Inr (),
                indeed_get = failing_page, random_draw = zero_draw \<rparr>"

definition three_hits :: JobScraper where
  "three_hits = \<lparr> jsearch_api_key = Some ''key'', jsearch_get = three_hits_get, bs4_import = Inr (),
                  indeed_get = failing_page, random_draw = zero_draw \<rparr>"



definition no_answer :: string where
  "no_answer = ''I cannot score these jobs.''"


section \<open>Scoring: what every path returns\<close>

lemma is_strD: "is_str v \<Longrightarrow> \<exists>s. v = Some (Str s)"
  by (cases v) (auto simp: is_str_def split: pyval.splits)

lemma has_requiredE:
  assumes "has_required job"
  obtains t c d where "job ''title'' = Some (Str t)" "job ''company'' = Some (Str c)"
    "job ''description'' = Some (Str d)"
  using assms unfolding has_required_def by (blast dest: is_strD)

lemma optional_str_typed:
  assumes "is_opt_str (job k)"
  shows "optional_str (dict_get job k) = Some (field_of job k)"
  using assms
  by (auto simp: is_opt_str_def optional_str_def dict_get_def field_of_def required_str_def
      split: option.splits pyval.splits)

lemma scored_from_ok:
  assumes "typed_job job"
  shows "\<exists>sj. scored_from job s e = Inr sj \<and> keeps_fields job sj \<and> fit_score sj = s
           \<and> score_explanation sj = Some e"
proof -
  from assms have r: "has_required job" and l: "is_opt_str (job ''location'')"
    and u: "is_opt_str (job ''source_url'')"
    by (simp_all add: typed_job_def)
  from r obtain t c d where tcd: "job ''title'' = Some (Str t)" "job ''company'' = Some (Str c)"
    "job ''description'' = Some (Str d)" by (rule has_requiredE)
  have "scored_from job s e =
      Inr \<lparr> title = t, company = c, description = d, location = field_of job ''location'',
            source_url = field_of job ''source_url'', fit_score = s, score_explanation = Some e \<rparr>"
    using tcd optional_str_typed [of job "''location''", OF l]
      optional_str_typed [of job "''source_url''", OF u]
    by (simp add: scored_from_def bind_def subscript_def new_ScoredJob_def required_str_def)
  moreover have "field_of job ''title'' = Some t" "field_of job ''company'' = Some c"
    "field_of job ''description'' = Some d"
    using tcd by (simp_all add: field_of_def)
  ultimately show ?thesis by (simp add: keeps_fields_def)
qed

lemma mock_loop_ok:
  assumes "\<forall>j\<in>set jobs. typed_job j"
  shows "\<exists>sjs. mock_loop i jobs = Inr sjs \<and> length sjs = length jobs \<and>
           (\<forall>k<length jobs. keeps_fields (jobs ! k) (sjs ! k) \<and> fit_score (sjs ! k) = mock_score (i + k)
              \<and> score_explanation (sjs ! k) = Some mock_explanation)"
  using assms
proof (induction jobs arbitrary: i)
  case Nil
  then show ?case by simp
next
  case (Cons job jobs)
  from Cons.prems have "typed_job job" by simp
  from scored_from_ok [OF this] obtain sj where
    sj: "scored_from job (mock_score i) mock_explanation = Inr sj" "keeps_fields job sj"
      "fit_score sj = mock_score i" "score_explanation sj = Some mock_explanation" by blast
  from Cons.prems have "\<forall>j\<in>set jobs. typed_job j" by simp
  from Cons.IH [OF this, of "Suc i"] obtain rest where
    rest: "mock_loop (Suc i) jobs = Inr rest" "length rest = length jobs"
      "\<forall>k<length jobs. keeps_fields (jobs ! k) (rest ! k) \<and> fit_score (rest ! k) = mock_score (Suc i + k)
              \<and> score_explanation (rest ! k) = Some mock_explanation" by blast
  have "mock_loop i (job # jobs) = Inr (sj # rest)"
    using sj(1) rest(1) by (simp add: bind_def)
  moreover have "\<forall>k<length (job # jobs). keeps_fields ((job # jobs) ! k) ((sj # rest) ! k)
       \<and> fit_score ((sj # rest) ! k) = mock_score (i + k)
       \<and> score_explanation ((sj # rest) ! k) = Some mock_explanation"
  proof (intro allI impI)
    fix k assume "k < length (job # jobs)"
    then show "keeps_fields ((job # jobs) ! k) ((sj # rest) ! k)
       \<and> fit_score ((sj # rest) ! k) = mock_score (i + k)
       \<and> score_explanation ((sj # rest) ! k) = Some mock_explanation"
      using sj rest(3) by (cases k) auto
  qed
  ultimately show ?case using rest(2) by auto
qed

lemma parse_loop_ok:
  assumes "\<forall>j\<in>set jobs. typed_job j"
  shows "\<exists>sjs. parse_loop lines i jobs = Inr sjs \<and> length sjs = length jobs \<and>
           (\<forall>k<length jobs. keeps_fields (jobs ! k) (sjs ! k)
              \<and> fit_score (sjs ! k) = max 0 (min 100 (fst (line_score lines (i + k))))
              \<and> score_explanation (sjs ! k) = Some (snd (line_score lines (i + k))))"
  using assms
proof (induction jobs arbitrary: i)
  case Nil
  then show ?case by simp
next
  case (Cons job jobs)
  let ?s = "max 0 (min 100 (fst (line_score lines i)))"
  let ?e = "snd (line_score lines i)"
  from Cons.prems have "typed_job job" by simp
  from scored_from_ok [OF this] obtain sj where
    sj: "scored_from job ?s ?e = Inr sj" "keeps_fields job sj"
      "fit_score sj = ?s" "score_explanation sj = Some ?e" by blast
  from Cons.prems have "\<forall>j\<in>set jobs. typed_job j" by simp
  from Cons.IH [OF this, of "Suc i"] obtain rest where
    rest: "parse_loop lines (Suc i) jobs = Inr rest" "length rest = length jobs"
      "\<forall>k<length jobs. keeps_fields (jobs ! k) (rest ! k)
          \<and> fit_score (rest ! k) = max 0 (min 100 (fst (line_score lines (Suc i + k))))
          \<and> score_explanation (rest ! k) = Some (snd (line_score lines (Suc i + k)))" by blast
  have "parse_loop lines i (job # jobs) = Inr (sj # rest)"
    using sj(1) rest(1) by (cases "line_score lines i") (simp add: bind_def)
  moreover have "\<forall>k<length (job # jobs). keeps_fields ((job # jobs) ! k) ((sj # rest) ! k)
       \<and> fit_score ((sj # rest) ! k) = max 0 (min 100 (fst (line_score lines (i + k))))
       \<and> score_explanation ((sj # rest) ! k) = Some (snd (line_score lines (i + k)))"
  proof (intro allI impI)
    fix k assume "k < length (job # jobs)"
    then show "keeps_fields ((job # jobs) ! k) ((sj # rest) ! k)
       \<and> fit_score ((sj # rest) ! k) = max 0 (min 100 (fst (line_score lines (i + k))))
       \<and> score_explanation ((sj # rest) ! k) = Some (snd (line_score lines (i + k)))"
      using sj rest(3) by (cases k) auto
  qed
  ultimately show ?case using rest(2) by auto
qed

lemma mock_score_range: "40 \<le> mock_score i \<and> mock_score i \<le> 95"
  by (simp add: mock_score_def Let_def)

lemma generate_mock_scores_ok:
  assumes "\<forall>j\<in>set jobs. typed_job j"
  shows "\<exists>sjs. generate_mock_scores jobs = Inr sjs \<and> length sjs = length jobs \<and>
           (\<forall>k<length jobs. keeps_fields (jobs ! k) (sjs ! k) \<and> fit_score (sjs ! k) = mock_score k
              \<and> score_explanation (sjs ! k) = Some mock_explanation)"
  using mock_loop_ok [OF assms, of 0] by (simp add: generate_mock_scores_def)

lemma generate_mock_scores_valid:
  assumes "\<forall>j\<in>set jobs. typed_job j"
  shows "\<exists>sjs. generate_mock_scores jobs = Inr sjs \<and> valid_scores jobs sjs"
proof -
  from generate_mock_scores_ok [OF assms] obtain sjs where
    s: "generate_mock_scores jobs = Inr sjs" "length sjs = length jobs"
      "\<forall>k<length jobs. keeps_fields (jobs ! k) (sjs ! k) \<and> fit_score (sjs ! k) = mock_score k
              \<and> score_explanation (sjs ! k) = Some mock_explanation" by blast
  have "keeps_fields (jobs ! k) (sjs ! k) \<and> 0 \<le> fit_score (sjs ! k) \<and> fit_score (sjs ! k) \<le> 100"
    if "k < length jobs" for k
    using s(3) that mock_score_range [of k] by auto
  then have "valid_scores jobs sjs"
    unfolding valid_scores_def using s(2) by blast
  with s(1) show ?thesis by blast
qed

lemma parse_ai_scores_ok:
  assumes "\<forall>j\<in>set jobs. typed_job j"
  shows "\<exists>sjs. parse_ai_scores jobs resp = Inr sjs \<and> length sjs = length jobs \<and>
           (\<forall>k<length jobs. keeps_fields (jobs ! k) (sjs ! k)
              \<and> fit_score (sjs ! k) = max 0 (min 100 (fst (line_score (py_split ''\<newline>'' (strip resp)) k)))
              \<and> score_explanation (sjs ! k) = Some (snd (line_score (py_split ''\<newline>'' (strip resp)) k)))"
  using parse_loop_ok [OF assms, of "py_split ''\<newline>'' (strip resp)" 0]
  by (auto simp: parse_ai_scores_def)

lemma parse_ai_scores_valid:
  assumes "\<forall>j\<in>set jobs. typed_job j"
  shows "\<exists>sjs. parse_ai_scores jobs resp = Inr sjs \<and> valid_scores jobs sjs"
proof -
  from parse_ai_scores_ok [OF assms, of resp] obtain sjs where
    s: "parse_ai_scores jobs resp = Inr sjs" "length sjs = length jobs"
      "\<forall>k<length jobs. keeps_fields (jobs ! k) (sjs ! k)
              \<and> fit_score (sjs ! k) = max 0 (min 100 (fst (line_score (py_split ''\<newline>'' (strip resp)) k)))
              \<and> score_explanation (sjs ! k) = Some (snd (line_score (py_split ''\<newline>'' (strip resp)) k))"
    by blast
  have "valid_scores jobs sjs"
    unfolding valid_scores_def using s(2,3) by auto
  with s(1) show ?thesis by blast
qed

lemma score_with_openai_valid:
  assumes "\<forall>j\<in>set jobs. typed_job j"
  shows "\<exists>sjs. score_with_openai self n profile jobs = Inr sjs \<and> valid_scores jobs sjs"
proof (cases "bind (create_scoring_prompt profile jobs) (\<lambda>prompt.
           bind (call_client (openai_client self) n prompt) (\<lambda>content.
             parse_ai_scores jobs content))")
  case (Inl e)
  then show ?thesis
    using generate_mock_scores_valid [OF assms] by (simp add: score_with_openai_def)
next
  case (Inr sjs)
  then obtain content where "parse_ai_scores jobs content = Inr sjs"
    by (auto simp: bind_def split: sum.splits)
  with parse_ai_scores_valid [OF assms, of content] have "valid_scores jobs sjs" by auto
  with Inr show ?thesis by (simp add: score_with_openai_def)
qed

lemma score_with_claude_valid:
  assumes "\<forall>j\<in>set jobs. typed_job j"
  shows "\<exists>sjs. score_with_claude self n profile jobs = Inr sjs \<and> valid_scores jobs sjs"
proof (cases "bind (create_scoring_prompt profile jobs) (\<lambda>prompt.
           bind (call_client (claude_client self) n prompt) (\<lambda>content.
             parse_ai_scores jobs content))")
  case (Inl e)
  then show ?thesis
    using generate_mock_scores_valid [OF assms] by (simp add: score_with_claude_def)
next
  case (Inr sjs)
  then obtain content where "parse_ai_scores jobs content = Inr sjs"
    by (auto simp: bind_def split: sum.splits)
  with parse_ai_scores_valid [OF assms, of content] have "valid_scores jobs sjs" by auto
  with Inr show ?thesis by (simp add: score_with_claude_def)
qed

lemma score_job_batch_valid:
  assumes "\<forall>j\<in>set jobs. typed_job j"
  shows "\<exists>sjs. score_job_batch self n profile jobs = Inr sjs \<and> valid_scores jobs sjs"
  using generate_mock_scores_valid [OF assms] score_with_openai_valid [OF assms, of self n profile]
    score_with_claude_valid [OF assms, of self n profile]
  by (auto simp: score_job_batch_def split: sum.splits)

lemma score_loop_pointwise:
  assumes "\<And>n b. b \<noteq> [] \<Longrightarrow> length b \<le> 5 \<Longrightarrow> set b \<subseteq> set jobs \<Longrightarrow>
             \<exists>bs. score_job_batch self n profile b = Inr bs \<and> length bs = length b \<and>
                  (\<forall>k<length b. R k (b ! k) (bs ! k))"
  shows "\<exists>rest. score_loop self profile jobs i acc = Inr (acc @ rest) \<and>
           length rest = length jobs - i \<and>
           (\<forall>k<length rest. R (k mod 5) (jobs ! (i + k)) (rest ! k))"
  using assms
proof (induction self profile jobs i acc rule: score_loop.induct)
  case (1 self profile jobs i acc)
  show ?case
  proof (cases "i < length jobs")
    case False
    then show ?thesis by (simp add: score_loop.simps)
  next
    case True
    let ?b = "take 5 (drop i jobs)"
    have b: "?b \<noteq> []" "length ?b \<le> 5" "set ?b \<subseteq> set jobs"
      using True by (auto dest: in_set_takeD in_set_dropD)
    from "1.prems" [OF b, of "i div 5"] obtain bs where
      bs: "score_job_batch self (i div 5) profile ?b = Inr bs" "length bs = length ?b"
        "\<forall>k<length ?b. R k (?b ! k) (bs ! k)" by blast
    from "1.IH" [OF True bs(1) "1.prems"] obtain rest where
      rest: "score_loop self profile jobs (i + 5) (acc @ bs) = Inr ((acc @ bs) @ rest)"
        "length rest = length jobs - (i + 5)"
        "\<forall>k<length rest. R (k mod 5) (jobs ! (i + 5 + k)) (rest ! k)" by blast
    have eq: "score_loop self profile jobs i acc = Inr (acc @ (bs @ rest))"
      using True bs(1) rest(1) by (subst score_loop.simps) simp
    have len: "length (bs @ rest) = length jobs - i"
      using bs(2) rest(2) True by auto
    have "R (k mod 5) (jobs ! (i + k)) ((bs @ rest) ! k)" if k: "k < length (bs @ rest)" for k
    proof (cases "k < length bs")
      case True
      then have "k < 5" using bs(2) by simp
      moreover have "?b ! k = jobs ! (i + k)" using True bs(2) \<open>i < length jobs\<close> by simp
      ultimately show ?thesis using True bs(2,3) by (simp add: nth_append)
    next
      case False
      then have l5: "length bs = 5" using k bs(2) rest(2) by auto
      then have "k - 5 < length rest" using False k by simp
      with rest(3) have "R ((k - 5) mod 5) (jobs ! (i + 5 + (k - 5))) (rest ! (k - 5))" by blast
      moreover have "(k - 5) mod 5 = k mod 5" using False l5 by (simp add: le_mod_geq)
      moreover have "i + 5 + (k - 5) = i + k" using False l5 by simp
      ultimately show ?thesis using False l5 by (simp add: nth_append)
    qed
    with eq len show ?thesis by blast
  qed
qed

lemma score_jobs_pointwise:
  assumes req: "\<forall>j\<in>set jobs. typed_job j"
    and batch: "\<And>n profile b. b \<noteq> [] \<Longrightarrow> length b \<le> 5 \<Longrightarrow> set b \<subseteq> set jobs \<Longrightarrow>
             \<exists>bs. score_job_batch self n profile b = Inr bs \<and> length bs = length b \<and>
                  (\<forall>k<length b. R k (b ! k) (bs ! k))"
  shows "\<exists>sjs. score_jobs self requests_get url jobs user_skills user_experience = Inr sjs \<and>
           length sjs = length jobs \<and>
           (\<forall>k<length jobs. R (k mod 5) (jobs ! k) (sjs ! k))"
proof -
  let ?p = "\<lparr> resume_content = extract_resume_content requests_get url,
              skills = (case user_skills of None \<Rightarrow> [] | Some ss \<Rightarrow> ss),
              experience = user_experience \<rparr>"
  from score_loop_pointwise [where R = R and self = self and profile = ?p and jobs = jobs and i = 0 and acc = "[]", OF batch]
  obtain rest where "score_loop self ?p jobs 0 [] = Inr rest" "length rest = length jobs"
    "\<forall>k<length rest. R (k mod 5) (jobs ! k) (rest ! k)" by auto
  then show ?thesis by (auto simp: score_jobs_def Let_def)
qed


section \<open>Scoring: the claims\<close>

lemma no_provider_batch:
  assumes "openai_client self = None" "claude_client self = None" "\<forall>j\<in>set b. typed_job j"
  shows "\<exists>bs. score_job_batch self n profile b = Inr bs \<and> length bs = length b \<and>
           (\<forall>k<length b. keeps_fields (b ! k) (bs ! k) \<and> fit_score (bs ! k) = mock_score k)"
  using generate_mock_scores_ok [OF assms(3)] assms(1,2)
  by (auto simp: score_job_batch_def)

lemma job_a_typed: "typed_job job_a"
  by (simp add: typed_job_def has_required_def is_str_def is_opt_str_def job_a_def)

lemma job_b_typed: "typed_job job_b"
  by (simp add: typed_job_def has_required_def is_str_def is_opt_str_def job_b_def)

lemma sort_two: "fit_score sa < fit_score sb \<Longrightarrow> sort_by_fit_score [sa, sb] = [sb, sa]"
  by (simp add: sort_by_fit_score_def)

lemma score_jobs_returns:
  assumes "\<forall>j\<in>set jobs. typed_job j"
  shows "\<exists>sjs. score_jobs self requests_get url jobs user_skills user_experience = Inr sjs \<and>
           length sjs = length jobs \<and>
           (\<forall>k<length jobs. keeps_fields (jobs ! k) (sjs ! k) \<and>
               0 \<le> fit_score (sjs ! k) \<and> fit_score (sjs ! k) \<le> 100)"
proof -
  have "\<exists>bs. score_job_batch self n profile b = Inr bs \<and> length bs = length b \<and>
          (\<forall>k<length b. keeps_fields (b ! k) (bs ! k) \<and> 0 \<le> fit_score (bs ! k) \<and> fit_score (bs ! k) \<le> 100)"
    if "set b \<subseteq> set jobs" for n profile b
  proof -
    from that assms have "\<forall>j\<in>set b. typed_job j" by blast
    from score_job_batch_valid [OF this, of self n profile] show ?thesis
      by (auto simp: valid_scores_def)
  qed
  then show ?thesis
    using score_jobs_pointwise
      [where R = "\<lambda>k job sj. keeps_fields job sj \<and> 0 \<le> fit_score sj \<and> fit_score sj \<le> 100", OF assms]
    by blast
qed

text \<open>
  C10. Before the endpoint sorts, \<open>score_jobs\<close> returns exactly one scored job per input
  job, in the order of the input, and each scored job carries the title, company,
  description, location and source URL of its input job unchanged; so do the two paths
  it is built from, the parsing of a provider's answer and the mock scores. The jobs are
  typed as \<open>models/job.py\<close> types them. (A job that lacks a required field has no scored
  job at all: see C2.)
\<close>

theorem score_jobs_keeps_jobs:
  assumes "\<forall>j\<in>set jobs. typed_job j"
  shows "(\<exists>sjs. score_jobs self requests_get url jobs user_skills user_experience = Inr sjs \<and>
            length sjs = length jobs \<and> (\<forall>k<length jobs. keeps_fields (jobs ! k) (sjs ! k))) \<and>
         (\<exists>sjs. parse_ai_scores jobs ai_response = Inr sjs \<and>
            length sjs = length jobs \<and> (\<forall>k<length jobs. keeps_fields (jobs ! k) (sjs ! k))) \<and>
         (\<exists>sjs. generate_mock_scores jobs = Inr sjs \<and>
            length sjs = length jobs \<and> (\<forall>k<length jobs. keeps_fields (jobs ! k) (sjs ! k)))"
proof (intro conjI)
  show "\<exists>sjs. score_jobs self requests_get url jobs user_skills user_experience = Inr sjs \<and>
            length sjs = length jobs \<and> (\<forall>k<length jobs. keeps_fields (jobs ! k) (sjs ! k))"
    using score_jobs_returns [OF assms, of self requests_get url user_skills user_experience] by blast
next
  show "\<exists>sjs. parse_ai_scores jobs ai_response = Inr sjs \<and>
            length sjs = length jobs \<and> (\<forall>k<length jobs. keeps_fields (jobs ! k) (sjs ! k))"
    using parse_ai_scores_valid [OF assms, of ai_response] by (auto simp: valid_scores_def)
next
  show "\<exists>sjs. generate_mock_scores jobs = Inr sjs \<and>
            length sjs = length jobs \<and> (\<forall>k<length jobs. keeps_fields (jobs ! k) (sjs ! k))"
    using generate_mock_scores_valid [OF assms] by (auto simp: valid_scores_def)
qed

theorem score_jobs_keeps_jobs_witness:
  "typed_job job_a \<and> typed_job job_b \<and>
   (\<exists>sjs. score_jobs (openai_only two_line_answer) resume_unavailable ''https://x/r.pdf''
             [job_a, job_b] (Some [''Go'']) ''3 years'' = Inr sjs \<and>
      length sjs = 2 \<and> keeps_fields job_a (sjs ! 0) \<and> keeps_fields job_b (sjs ! 1))"
proof -
  have h: "\<forall>j\<in>set [job_a, job_b]. typed_job j"
    by (simp add: job_a_typed job_b_typed)
  from score_jobs_keeps_jobs [where self = "openai_only two_line_answer"
      and requests_get = resume_unavailable and url = "''https://x/r.pdf''"
      and user_skills = "Some [''Go'']" and user_experience = "''3 years''", OF h, THEN conjunct1]
  obtain sjs where s: "score_jobs (openai_only two_line_answer) resume_unavailable ''https://x/r.pdf''
             [job_a, job_b] (Some [''Go'']) ''3 years'' = Inr sjs"
    "length sjs = length [job_a, job_b]"
    "\<forall>k<length [job_a, job_b]. keeps_fields ([job_a, job_b] ! k) (sjs ! k)" by blast
  from s(3) [rule_format, of 0] s(3) [rule_format, of 1]
  have "keeps_fields job_a (sjs ! 0)" "keeps_fields job_b (sjs ! 1)" by simp_all
  with s(1,2) show ?thesis by (simp add: job_a_typed job_b_typed)
qed

text \<open>
  C7 (as amended). With no provider configured and every job typed as \<open>models/job.py\<close>
  types it, the job at position \<open>i\<close> of the input gets the mock score of its position
  inside its batch of five: \<open>max 40 (min 95 (85 - 3 (i mod 5) + ((i mod 5) mod 3) 5))\<close>.
  The formula of the position \<open>i\<close> itself holds for the first five jobs only.
\<close>

theorem mock_scores_per_batch:
  assumes "openai_client self = None" and "claude_client self = None"
    and "\<forall>j\<in>set jobs. typed_job j"
  shows "\<exists>sjs. score_jobs self requests_get url jobs user_skills user_experience = Inr sjs \<and>
           length sjs = length jobs \<and>
           (\<forall>i<length jobs. fit_score (sjs ! i) =
               max 40 (min 95 ((85 - 3 * int (i mod 5)) + (int (i mod 5) mod 3) * 5)))"
proof -
  have "\<exists>bs. score_job_batch self n profile b = Inr bs \<and> length bs = length b \<and>
          (\<forall>k<length b. fit_score (bs ! k) = mock_score k)"
    if "set b \<subseteq> set jobs" for n profile b
  proof -
    from that assms(3) have "\<forall>j\<in>set b. typed_job j" by blast
    from no_provider_batch [OF assms(1,2) this, of n profile] show ?thesis by auto
  qed
  then have "\<exists>sjs. score_jobs self requests_get url jobs user_skills user_experience = Inr sjs \<and>
           length sjs = length jobs \<and> (\<forall>k<length jobs. fit_score (sjs ! k) = mock_score (k mod 5))"
    using score_jobs_pointwise [where R = "\<lambda>k job sj. fit_score sj = mock_score k", OF assms(3)]
    by blast
  then show ?thesis
    by (simp add: mock_score_def Let_def mult.commute)
qed

theorem mock_scores_per_batch_witness:
  "openai_client no_provider = None \<and> claude_client no_provider = None \<and>
   typed_job job_a \<and> typed_job job_b \<and>
   (\<exists>sjs. score_jobs no_provider resume_unavailable ''https://x/r.pdf'' six_jobs None [] = Inr sjs \<and>
      length sjs = 6 \<and> fit_score (sjs ! 1) = 87 \<and> fit_score (sjs ! 5) = 85)"
proof -
  have np: "openai_client no_provider = None" "claude_client no_provider = None"
    by (simp_all add: no_provider_def)
  have h: "\<forall>j\<in>set six_jobs. typed_job j"
    by (simp add: six_jobs_def job_a_typed job_b_typed)
  from mock_scores_per_batch [OF np h, of resume_unavailable "''https://x/r.pdf''" None "[]"]
  obtain sjs where s: "score_jobs no_provider resume_unavailable ''https://x/r.pdf'' six_jobs None [] = Inr sjs"
    "length sjs = length six_jobs"
    "\<forall>i<length six_jobs. fit_score (sjs ! i) =
        max 40 (min 95 ((85 - 3 * int (i mod 5)) + (int (i mod 5) mod 3) * 5))" by blast
  have l: "length six_jobs = 6" by (simp add: six_jobs_def)
  from s(3) [rule_format, of 1] s(3) [rule_format, of 5] l
  have "fit_score (sjs ! 1) = 87" "fit_score (sjs ! 5) = 85" by simp_all
  with s(1,2) l np show ?thesis by (simp add: job_a_typed job_b_typed)
qed

theorem mock_position_counterexample:
  "map_sum id (map fit_score)
     (score_jobs no_provider resume_unavailable ''https://x/r.pdf'' six_jobs None []) =
     Inr [85, 87, 89, 76, 78, 85] \<and>
   max 40 (min 95 ((85 - 3 * 5) + (5 mod 3) * 5)) = (80::int)"
  by code_simp

text \<open>
  C8 (as amended). With no provider configured, scoring two jobs \<open>a\<close> and \<open>b\<close>, typed as
  \<open>models/job.py\<close> types a job, gives \<open>a\<close> the score 85 and \<open>b\<close> the score 87
  (85 - 3 + 5), so the endpoint answers with exactly two scored jobs, \<open>b\<close> with 87 first
  and \<open>a\<close> with 85 second. No job gets 82.
\<close>

theorem two_jobs_no_provider:
  assumes "typed_job a" and "typed_job b" and "url \<noteq> []"
    and "openai_client self = None" and "claude_client self = None"
  shows "\<exists>r sa sb. score_jobs_endpoint self requests_get url [a, b] user_skills user_experience = Inr r \<and>
           resp_scored_jobs r = [sb, sa] \<and>
           keeps_fields b sb \<and> fit_score sb = 87 \<and> keeps_fields a sa \<and> fit_score sa = 85"
proof -
  let ?sk = "Some (case user_skills of None \<Rightarrow> [] | Some ss \<Rightarrow> ss)"
  let ?ex = "case user_experience of None \<Rightarrow> [] | Some x \<Rightarrow> x"
  have req: "\<forall>j\<in>set [a, b]. typed_job j" using assms(1,2) by simp
  have "\<exists>bs. score_job_batch self n profile c = Inr bs \<and> length bs = length c \<and>
          (\<forall>k<length c. keeps_fields (c ! k) (bs ! k) \<and> fit_score (bs ! k) = mock_score k)"
    if "set c \<subseteq> set [a, b]" for n profile c
  proof -
    from that req have "\<forall>j\<in>set c. typed_job j" by blast
    from no_provider_batch [OF assms(4,5) this, of n profile] show ?thesis by auto
  qed
  then obtain sjs where s: "score_jobs self requests_get url [a, b] ?sk ?ex = Inr sjs"
    "length sjs = length [a, b]"
    "\<forall>k<length [a, b]. keeps_fields ([a, b] ! k) (sjs ! k) \<and> fit_score (sjs ! k) = mock_score (k mod 5)"
    using score_jobs_pointwise [where R = "\<lambda>k job sj. keeps_fields job sj \<and> fit_score sj = mock_score k"
        and jobs = "[a, b]" and self = self, OF req] by blast
  from s(2) obtain sa sb where sjs: "sjs = [sa, sb]"
    by (cases sjs; cases "tl sjs") auto
  from s(3) [rule_format, of 0] sjs have a: "keeps_fields a sa" "fit_score sa = 85"
    by (simp_all add: mock_score_def)
  from s(3) [rule_format, of 1] sjs have b: "keeps_fields b sb" "fit_score sb = 87"
    by (simp_all add: mock_score_def)
  have "sort_by_fit_score [sa, sb] = [sb, sa]" using a(2) b(2) by (simp add: sort_two)
  then have "score_jobs_endpoint self requests_get url [a, b] user_skills user_experience =
      Inr \<lparr> resp_scored_jobs = [sb, sa], resp_scored_count = 2 \<rparr>"
    using s(1) sjs assms(3) by (simp add: score_jobs_endpoint_def bind_def Let_def)
  with a b show ?thesis by auto
qed

theorem two_jobs_no_provider_witness:
  "typed_job job_a \<and> typed_job job_b \<and> ''https://x/r.pdf'' \<noteq> [] \<and>
   openai_client no_provider = None \<and> claude_client no_provider = None \<and>
   (\<exists>r sa sb. score_jobs_endpoint no_provider resume_unavailable ''https://x/r.pdf'' [job_a, job_b]
                 (Some [''Go'']) (Some ''3 years'') = Inr r \<and>
      resp_scored_jobs r = [sb, sa] \<and>
      keeps_fields job_b sb \<and> fit_score sb = 87 \<and> keeps_fields job_a sa \<and> fit_score sa = 85)"
proof -
  have np: "openai_client no_provider = None" "claude_client no_provider = None"
    by (simp_all add: no_provider_def)
  have u: "''https://x/r.pdf'' \<noteq> []" by simp
  from two_jobs_no_provider [OF job_a_typed job_b_typed u np,
      of resume_unavailable "Some [''Go'']" "Some ''3 years''"]
  show ?thesis using np job_a_typed job_b_typed by simp
qed

theorem two_jobs_counterexample:
  "map_sum id (map fit_score \<circ> resp_scored_jobs)
     (score_jobs_endpoint no_provider resume_unavailable ''https://x/r.pdf'' [job_a, job_b]
        (Some [''Go'']) (Some ''3 years'')) = Inr [87, 85]"
  by code_simp

text \<open>
  C5. The list the scoring endpoint answers with is the list \<open>score_jobs\<close> returned, sorted
  non-increasing by fit score, and stable: for every score, the jobs with that score
  stand in the answer in the order \<open>score_jobs\<close> returned them, which is the order of
  the jobs in the request.
\<close>

theorem scored_jobs_sorted_stable:
  assumes "jobs \<noteq> []" and "url \<noteq> []" and "\<forall>j\<in>set jobs. typed_job j"
  shows "\<exists>r sjs. score_jobs_endpoint self requests_get url jobs user_skills user_experience = Inr r \<and>
           score_jobs self requests_get url jobs
             (Some (case user_skills of None \<Rightarrow> [] | Some ss \<Rightarrow> ss))
             (case user_experience of None \<Rightarrow> [] | Some x \<Rightarrow> x) = Inr sjs \<and>
           length sjs = length jobs \<and> (\<forall>k<length jobs. keeps_fields (jobs ! k) (sjs ! k)) \<and>
           length (resp_scored_jobs r) = length jobs \<and>
           sorted_wrt (\<lambda>x y. fit_score x \<ge> fit_score y) (resp_scored_jobs r) \<and>
           (\<forall>s. filter (\<lambda>x. fit_score x = s) (resp_scored_jobs r) = filter (\<lambda>x. fit_score x = s) sjs)"
proof -
  let ?sk = "Some (case user_skills of None \<Rightarrow> [] | Some ss \<Rightarrow> ss)"
  let ?ex = "case user_experience of None \<Rightarrow> [] | Some x \<Rightarrow> x"
  from score_jobs_returns [OF assms(3), of self requests_get url ?sk ?ex]
  obtain sjs where s: "score_jobs self requests_get url jobs ?sk ?ex = Inr sjs" "length sjs = length jobs"
    "\<forall>k<length jobs. keeps_fields (jobs ! k) (sjs ! k)"
    by blast
  let ?out = "sort_by_fit_score sjs"
  have e: "score_jobs_endpoint self requests_get url jobs user_skills user_experience =
      Inr \<lparr> resp_scored_jobs = ?out, resp_scored_count = length ?out \<rparr>"
    using s(1) assms(1,2) by (simp add: score_jobs_endpoint_def bind_def Let_def)
  have "sorted (map (\<lambda>x. - fit_score x) ?out)"
    by (simp add: sort_by_fit_score_def)
  then have srt: "sorted_wrt (\<lambda>x y. fit_score x \<ge> fit_score y) ?out"
    by (simp add: sorted_map)
  have stab: "filter (\<lambda>x. fit_score x = s) ?out = filter (\<lambda>x. fit_score x = s) sjs" for s
    using sort_key_stable [of "\<lambda>x. - fit_score x" "- s" sjs]
    by (simp add: sort_by_fit_score_def)
  have "length ?out = length jobs" using s(2) by (simp add: sort_by_fit_score_def)
  with e s srt stab show ?thesis by auto
qed

theorem scored_jobs_sorted_stable_witness:
  "six_jobs \<noteq> [] \<and> ''https://x/r.pdf'' \<noteq> [] \<and> typed_job job_a \<and> typed_job job_b \<and>
   (\<exists>r sjs. score_jobs_endpoint no_provider resume_unavailable ''https://x/r.pdf'' six_jobs None None = Inr r \<and>
      score_jobs no_provider resume_unavailable ''https://x/r.pdf'' six_jobs (Some []) [] = Inr sjs \<and>
      length (resp_scored_jobs r) = 6 \<and>
      sorted_wrt (\<lambda>x y. fit_score x \<ge> fit_score y) (resp_scored_jobs r) \<and>
      filter (\<lambda>x. fit_score x = 85) (resp_scored_jobs r) = filter (\<lambda>x. fit_score x = 85) sjs)"
proof -
  have n: "six_jobs \<noteq> []" by (simp add: six_jobs_def)
  have u: "''https://x/r.pdf'' \<noteq> []" by simp
  have h: "\<forall>j\<in>set six_jobs. typed_job j"
    by (simp add: six_jobs_def job_a_typed job_b_typed)
  have l: "length six_jobs = 6" by (simp add: six_jobs_def)
  from scored_jobs_sorted_stable [OF n u h, of no_provider resume_unavailable None None]
  show ?thesis using n l job_a_typed job_b_typed by auto
qed


section \<open>Scraping: keys, first occurrences and sources\<close>

lemma dedup_key_well_keyed:
  assumes "well_keyed job"
  shows "dedup_key job = Inr (key_of job)"
    and "key_of job = strip (fst (norm_pair job)) @ ''|'' @ strip (snd (norm_pair job))"
proof -
  from assms obtain t c where tc: "job ''title'' = Some (Str t)" "job ''company'' = Some (Str c)"
    unfolding well_keyed_def by (blast dest: is_strD)
  then have k: "dedup_key job = Inr (strip (lower t) @ ''|'' @ strip (lower c))"
    by (simp add: dedup_key_def bind_def subscript_def lower_strip_def)
  then show "dedup_key job = Inr (key_of job)" by (simp add: key_of_def)
  from k tc show "key_of job = strip (fst (norm_pair job)) @ ''|'' @ strip (snd (norm_pair job))"
    by (simp add: key_of_def norm_pair_def text_of_def)
qed

lemma first_from_Nil: "first_from seen [] = []"
  by (simp add: first_from_def)

lemma first_from_Cons:
  "first_from seen (j # js) =
     (if key_of j \<in> seen then first_from seen js else j # first_from (insert (key_of j) seen) js)"
proof -
  have upt: "[0..<length (j # js)] = 0 # map Suc [0..<length js]"
    by (simp add: upt_conv_Cons map_Suc_upt del: upt_Suc)
  have flt: "filter (\<lambda>i. key_of ((j # js) ! i) \<notin> seen \<union> key_of ` set (take i (j # js))) (map Suc [0..<length js])
      = map Suc (filter (\<lambda>i. key_of (js ! i) \<notin> insert (key_of j) seen \<union> key_of ` set (take i js)) [0..<length js])"
    unfolding filter_map
    by (rule arg_cong [where f = "map Suc"], rule filter_cong) auto
  have "first_from seen (j # js) =
      map (\<lambda>i. (j # js) ! i) (filter (\<lambda>i. key_of ((j # js) ! i) \<notin> seen \<union> key_of ` set (take i (j # js)))
         (0 # map Suc [0..<length js]))"
    unfolding first_from_def upt ..
  also have "\<dots> = (if key_of j \<in> seen then [] else [j]) @
      map (\<lambda>i. (j # js) ! i) (map Suc (filter (\<lambda>i. key_of (js ! i) \<notin> insert (key_of j) seen \<union> key_of ` set (take i js)) [0..<length js]))"
    unfolding filter.simps flt by simp
  also have "\<dots> = (if key_of j \<in> seen then [] else [j]) @ first_from (insert (key_of j) seen) js"
    by (simp add: first_from_def o_def)
  finally show ?thesis by (simp add: insert_absorb)
qed

lemma dedup_loop_first_from:
  assumes "\<forall>j\<in>set jobs. well_keyed j"
  shows "dedup_loop seen jobs = Inr (first_from seen jobs)"
  using assms
proof (induction jobs arbitrary: seen)
  case Nil
  then show ?case by (simp add: first_from_Nil)
next
  case (Cons j js)
  then have "dedup_key j = Inr (key_of j)" by (simp add: dedup_key_well_keyed)
  moreover from Cons have "dedup_loop s js = Inr (first_from s js)" for s by simp
  ultimately show ?case by (simp add: bind_def first_from_Cons)
qed

lemma first_from_props:
  "distinct (map key_of (first_from seen jobs)) \<and> key_of ` set (first_from seen jobs) \<inter> seen = {}
     \<and> subseq (first_from seen jobs) jobs"
proof (induction jobs arbitrary: seen)
  case Nil
  then show ?case by (simp add: first_from_Nil)
next
  case (Cons j js)
  show ?case
  proof (cases "key_of j \<in> seen")
    case True
    with Cons [of seen] show ?thesis by (auto simp: first_from_Cons)
  next
    case False
    with Cons [of "insert (key_of j) seen"] show ?thesis
      by (auto simp: first_from_Cons)
  qed
qed

lemma distinct_pairs_of_keys:
  assumes "distinct (map key_of us)" and "\<forall>j\<in>set us. well_keyed j"
  shows "distinct (map norm_pair us)"
proof -
  have "map key_of us = map (\<lambda>p. strip (fst p) @ ''|'' @ strip (snd p)) (map norm_pair us)"
    using assms(2) by (simp add: dedup_key_well_keyed(2))
  with assms(1) have "distinct (map (\<lambda>p. strip (fst p) @ ''|'' @ strip (snd p)) (map norm_pair us))"
    by simp
  then show ?thesis by (simp only: distinct_map [of _ "map norm_pair us"])
qed

lemma py_take_is_take: "\<exists>m. py_take n xs = take m xs"
  by (auto simp: py_take_def)

lemma length_py_take: "0 \<le> n \<Longrightarrow> int (length (py_take n xs)) \<le> n"
  by (auto simp: py_take_def)

lemma job_of_keys:
  "job_of t c d l u src ''title'' = Some (Str t)"
  "job_of t c d l u src ''company'' = Some (Str c)"
  "job_of t c d l u src ''description'' = Some (Str d)"
  "job_of t c d l u src ''location'' = Some l"
  "job_of t c d l u src ''source_url'' = Some u"
  "job_of t c d l u src ''source'' = Some (Str src)"
  by (simp_all add: job_of_def)

lemma job_of_required: "has_required (job_of t c d l u src)" "well_keyed (job_of t c d l u src)"
  by (simp_all add: has_required_def well_keyed_def is_str_def job_of_keys)

lemma has_required_well_keyed: "has_required j \<Longrightarrow> well_keyed j"
  by (simp add: has_required_def well_keyed_def)

lemma parse_jsearch_job_shape:
  assumes "parse_jsearch_job job_data = Some j"
  shows "\<exists>t c d l u. j = job_of t c d l u ''jsearch''"
proof (cases "get_stripped job_data ''job_title''")
  case (Inl e)
  with assms show ?thesis by (simp add: parse_jsearch_job_def bind_def)
next
  case t: (Inr t)
  show ?thesis
  proof (cases "get_stripped job_data ''employer_name''")
    case (Inl e)
    with assms t show ?thesis by (simp add: parse_jsearch_job_def bind_def)
  next
    case c: (Inr c)
    show ?thesis
    proof (cases "get_stripped job_data ''job_description''")
      case (Inl e)
      with assms t c show ?thesis by (simp add: parse_jsearch_job_def bind_def)
    next
      case d: (Inr d)
      show ?thesis
      proof (cases "join_values '', ''
          (filter truthy [dict_get_default job_data ''job_city'' (Str []),
                          dict_get_default job_data ''job_state'' (Str []),
                          dict_get_default job_data ''job_country'' (Str [])])")
        case (Inl e)
        with assms t c d show ?thesis by (simp add: parse_jsearch_job_def bind_def Let_def)
      next
        case (Inr full_location)
        with assms t c d show ?thesis
          by (simp add: parse_jsearch_job_def bind_def Let_def split: if_splits) blast+
      qed
    qed
  qed
qed

lemma parse_jsearch_job_required:
  "parse_jsearch_job job_data = Some j \<Longrightarrow> has_required j \<and> j ''source'' = Some (Str ''jsearch'')"
  by (auto dest!: parse_jsearch_job_shape simp: job_of_required job_of_keys)

lemma extract_indeed_job_required:
  "extract_indeed_job_from_card cd = Some j \<Longrightarrow> has_required j \<and> j ''source'' = Some (Str ''indeed'')"
  by (auto simp: extract_indeed_job_from_card_def Let_def job_of_required job_of_keys split: if_splits)

lemma set_map_filter: "set (List.map_filter f xs) = {y. \<exists>x\<in>set xs. f x = Some y}"
  by (induction xs) (auto simp: List.map_filter_simps split: option.splits)

lemma scrape_jsearch_jobs_required:
  "j \<in> set (scrape_jsearch_jobs self keyword loc limit) \<Longrightarrow> has_required j"
  by (auto simp: scrape_jsearch_jobs_def bind_def set_map_filter parse_jsearch_job_required
      split: sum.splits if_splits)

lemma scrape_indeed_jobs_required:
  "j \<in> set (scrape_indeed_jobs self keyword loc limit) \<Longrightarrow> has_required j"
  by (auto simp: scrape_indeed_jobs_def bind_def Let_def set_map_filter extract_indeed_job_required
      split: sum.splits if_splits)

lemma collected_jobs_required:
  "j \<in> set (collected_jobs self keyword loc limit) \<Longrightarrow> has_required j"
  by (auto simp: collected_jobs_def Let_def dest: scrape_jsearch_jobs_required scrape_indeed_jobs_required
      split: if_splits)

lemma scrape_jobs_body_eq:
  "scrape_jobs_body self keyword loc limit =
     Inr (py_take limit (first_occurrences (collected_jobs self keyword loc limit)))"
proof -
  have "\<forall>j\<in>set (collected_jobs self keyword loc limit). well_keyed j"
    by (blast intro: has_required_well_keyed collected_jobs_required)
  then have "remove_duplicates (collected_jobs self keyword loc limit) =
      Inr (first_occurrences (collected_jobs self keyword loc limit))"
    by (simp add: remove_duplicates_def first_occurrences_def dedup_loop_first_from)
  then show ?thesis
    by (simp add: scrape_jobs_body_def collected_jobs_def Let_def bind_def)
qed

lemma scrape_jobs_eq:
  "scrape_jobs self keyword loc limit =
     Inr (py_take limit (first_occurrences (collected_jobs self keyword loc limit)))"
  by (simp add: scrape_jobs_def scrape_jobs_body_eq)

lemma length_mock_jobs_loop: "length (mock_jobs_loop draw keyword loc k i n) = n"
  by (induction n arbitrary: k i) (simp_all add: Let_def)

lemma mock_jobs_loop_source:
  "j \<in> set (mock_jobs_loop draw keyword loc k i n) \<Longrightarrow> has_required j \<and> j ''source'' = Some (Str ''mock'')"
  by (induction n arbitrary: k i) (auto simp: Let_def job_of_required job_of_keys)


section \<open>Scraping: the claims\<close>


lemma set_first_from: "set (first_from seen jobs) \<subseteq> set jobs"
  by (induction jobs arbitrary: seen) (auto simp: first_from_Nil first_from_Cons)

lemma distinct_map_py_take: "distinct (map f xs) \<Longrightarrow> distinct (map f (py_take n xs))"
  by (auto simp: py_take_def take_map [symmetric])

lemma first_occurrences_required:
  "j \<in> set (first_occurrences (collected_jobs self keyword loc limit)) \<Longrightarrow> has_required j"
  using set_first_from [of "{}" "collected_jobs self keyword loc limit"]
  by (auto simp: first_occurrences_def dest: collected_jobs_required)

lemma no_key_no_jsearch_jobs:
  "\<not> has_api_key self \<Longrightarrow> scrape_jsearch_jobs self keyword loc limit = []"
  by (simp add: scrape_jsearch_jobs_def)

lemma failed_request_no_jsearch_jobs:
  "jsearch_get self (strip (keyword @ '' '' @ loc)) = Inl e \<Longrightarrow> scrape_jsearch_jobs self keyword loc limit = []"
  by (simp add: scrape_jsearch_jobs_def bind_def)

lemma failed_import_no_indeed_jobs:
  "bs4_import self = Inl e \<Longrightarrow> scrape_indeed_jobs self keyword loc limit = []"
  by (simp add: scrape_indeed_jobs_def bind_def)

lemma failed_page_no_indeed_jobs:
  "indeed_get self keyword loc (min 50 limit) = Inl e \<Longrightarrow> scrape_indeed_jobs self keyword loc limit = []"
  by (simp add: scrape_indeed_jobs_def bind_def split: sum.splits)

lemma no_cards_no_indeed_jobs:
  "indeed_get self keyword loc (min 50 limit) = Inr soup \<Longrightarrow>
   select_cards soup [''div[data-jk]'', ''.job_seen_beacon'', ''.jobsearch-SerpJobCard'',
      ''.slider_container .slider_item''] = [] \<Longrightarrow>
   scrape_indeed_jobs self keyword loc limit = []"
  by (simp add: scrape_indeed_jobs_def bind_def Let_def split: sum.splits)

lemma length_get_mock_jobs: "length (get_mock_jobs self keyword loc limit) = nat (min limit 15)"
  by (simp add: get_mock_jobs_def length_mock_jobs_loop)

text \<open>
  Every list \<open>scrape_jobs\<close> returns is the first occurrences of the collected records,
  cut to the limit: the records at the positions whose key occurs at no earlier position,
  in their original order. The key of a record is its title and its company, each
  lower-cased and stripped, joined by a bar. No two records of the list share the
  lower-cased (title, company) pair.
\<close>

lemma scrape_jobs_no_duplicates:
  "scrape_jobs self keyword loc limit =
     Inr (py_take limit (first_occurrences (collected_jobs self keyword loc limit))) \<and>
   distinct (map norm_pair (py_take limit (first_occurrences (collected_jobs self keyword loc limit)))) \<and>
   distinct (map key_of (first_occurrences (collected_jobs self keyword loc limit))) \<and>
   subseq (first_occurrences (collected_jobs self keyword loc limit)) (collected_jobs self keyword loc limit) \<and>
   (\<forall>j\<in>set (collected_jobs self keyword loc limit).
      key_of j = strip (lower (text_of j ''title'')) @ ''|'' @ strip (lower (text_of j ''company'')))"
proof -
  let ?all = "collected_jobs self keyword loc limit"
  have k: "distinct (map key_of (first_occurrences ?all))" and s: "subseq (first_occurrences ?all) ?all"
    using first_from_props [of "{}" ?all] by (simp_all add: first_occurrences_def)
  have "\<forall>j\<in>set (first_occurrences ?all). well_keyed j"
    by (blast intro: has_required_well_keyed first_occurrences_required)
  with k have "distinct (map norm_pair (first_occurrences ?all))"
    by (rule distinct_pairs_of_keys)
  then have "distinct (map norm_pair (py_take limit (first_occurrences ?all)))"
    by (rule distinct_map_py_take)
  moreover have "\<forall>j\<in>set ?all. key_of j =
      strip (lower (text_of j ''title'')) @ ''|'' @ strip (lower (text_of j ''company''))"
    using dedup_key_well_keyed(2) has_required_well_keyed collected_jobs_required
    by (fastforce simp: norm_pair_def)
  ultimately show ?thesis using k s by (simp add: scrape_jobs_eq)
qed

text \<open>
  C3. In every list \<open>scrape_jobs\<close> returns no two records share the lower-cased
  (title, company) pair, and deduplication keeps the first occurrence of each pair in the
  original order. The code compares the two texts joined by a bar, so two different
  pairs can have one key: of the records (\<open>Developer|Remote\<close>, \<open>Acme\<close>) and
  (\<open>Developer\<close>, \<open>Remote|Acme\<close>), which JSearch returns in this order, the second is
  dropped although no earlier record has its pair.
\<close>

theorem dedup_key_collision:
  "map norm_pair (collected_jobs bar_hits ''developer'' [] 5) =
     [(''developer|remote'', ''acme''), (''developer'', ''remote|acme'')] \<and>
   map key_of (collected_jobs bar_hits ''developer'' [] 5) =
     [''developer|remote|acme'', ''developer|remote|acme''] \<and>
   map_sum id (map norm_pair) (scrape_jobs bar_hits ''developer'' [] 5) =
     Inr [(''developer|remote'', ''acme'')]"
  by code_simp

text \<open>
  When the JSearch step yields no records (no API key, a failed request, a status other
  than 200, no usable record) and the Indeed step yields none (the parser or the request
  fails, or no job card is found), the \<open>try\<close> block of \<open>scrape_jobs\<close> ends normally with
  the empty list: each source has turned its own failure into zero records.
\<close>

lemma scrape_jobs_empty_sources:
  assumes "scrape_jsearch_jobs self keyword loc limit = []"
    and "scrape_indeed_jobs self keyword loc limit = []"
  shows "scrape_jobs_body self keyword loc limit = Inr [] \<and> scrape_jobs self keyword loc limit = Inr []"
proof -
  have "collected_jobs self keyword loc limit = []"
    using assms by (simp add: collected_jobs_def)
  then show ?thesis
    by (simp add: scrape_jobs_eq scrape_jobs_body_eq first_occurrences_def first_from_Nil py_take_def)
qed

text \<open>
  C1. When JSearch yields no records (no API key, or a failed request) and Indeed fails or
  shows no job cards, \<open>scrape_jobs\<close> is to return the mock list of \<open>min(limit, 15)\<close>
  records, not an empty list. The code has that fallback in the handler of
  \<open>scrape_jobs\<close>, but no failure of a source reaches it: with no API key and a failing
  Indeed request, a search with limit 5 returns the empty list, where the mock list has
  5 records.
\<close>

theorem no_mock_fallback:
  "\<not> has_api_key offline \<and>
   isl (indeed_get offline ''data engineer'' ''Remote'' (min 50 5)) \<and>
   map_sum id length (scrape_jobs offline ''data engineer'' ''Remote'' 5) = Inr 0 \<and>
   length (get_mock_jobs offline ''data engineer'' ''Remote'' 5) = 5 \<and>
   map source_of (get_mock_jobs offline ''data engineer'' ''Remote'' 5) =
     replicate 5 (Some (Str ''mock''))"
  by code_simp

text \<open>
  For a request with a non-blank keyword and a limit that is not negative, the endpoint
  answers with at most \<open>limit\<close> and at most 50 records; the core runs with
  \<open>min(limit, 50)\<close>, so a request with a larger limit is answered as the request with
  limit 50 is.
\<close>

lemma endpoint_respects_limit:
  assumes "strip keyword \<noteq> []" and "0 \<le> limit"
  shows "\<exists>r. scrape_jobs_endpoint self keyword loc limit = Inr r \<and>
           scrape_jobs self (strip keyword) (strip loc) (min limit 50) = Inr (resp_jobs r) \<and>
           resp_count r = length (resp_jobs r) \<and>
           int (length (resp_jobs r)) \<le> limit \<and> length (resp_jobs r) \<le> 50 \<and>
           int (length (get_mock_jobs self (strip keyword) (strip loc) (min limit 50))) \<le> limit \<and>
           scrape_jobs_endpoint self keyword loc limit = scrape_jobs_endpoint self keyword loc (min limit 50)"
proof -
  let ?js = "py_take (min limit 50)
      (first_occurrences (collected_jobs self (strip keyword) (strip loc) (min limit 50)))"
  have s: "scrape_jobs self (strip keyword) (strip loc) (min limit 50) = Inr ?js"
    by (rule scrape_jobs_eq)
  have "0 \<le> min limit 50" using assms(2) by simp
  then have "int (length ?js) \<le> min limit 50" by (rule length_py_take)
  then have len: "int (length ?js) \<le> limit" "length ?js \<le> 50" by simp_all
  have m: "int (length (get_mock_jobs self (strip keyword) (strip loc) (min limit 50))) \<le> limit"
    using assms(2) by (simp add: length_get_mock_jobs)
  have e: "scrape_jobs_endpoint self keyword loc limit =
      Inr \<lparr> resp_jobs = ?js, resp_count = length ?js, resp_keyword = keyword,
            resp_location = loc, resp_sources = [''jsearch'', ''indeed'', ''mock''] \<rparr>"
    using assms(1) s by (simp add: scrape_jobs_endpoint_def bind_def)
  have "scrape_jobs_endpoint self keyword loc limit = scrape_jobs_endpoint self keyword loc (min limit 50)"
    by (simp add: scrape_jobs_endpoint_def)
  with e s len m show ?thesis by simp
qed

text \<open>
  C9. For every request with a non-blank keyword the endpoint is to answer with at most
  \<open>limit\<close> records, a limit above 50 counting as 50. The endpoint takes any integer as
  the limit, and for a negative one the slices \<open>[:limit]\<close> of the code drop records from
  the end instead of bounding the count: with three records from JSearch, the request
  with limit -1 is answered with one record, and the request with limit 60 as the one
  with limit 50.
\<close>

theorem negative_limit_returns_record:
  "strip ''go'' \<noteq> [] \<and>
   map_sum id resp_count (scrape_jobs_endpoint three_hits ''go'' [] (- 1)) = Inr 1 \<and>
   map_sum id resp_count (scrape_jobs_endpoint three_hits ''go'' [] 2) = Inr 2 \<and>
   map_sum id resp_count (scrape_jobs_endpoint three_hits ''go'' [] 60) =
     map_sum id resp_count (scrape_jobs_endpoint three_hits ''go'' [] 50)"
  by code_simp





section \<open>Scoring: the range of the fit score\<close>

lemma scored_from_fit: "scored_from job s e = Inr sj \<Longrightarrow> fit_score sj = s"
  by (auto simp: scored_from_def bind_def new_ScoredJob_def split: sum.splits option.splits)

lemma mock_loop_range:
  "mock_loop i jobs = Inr sjs \<Longrightarrow> \<forall>sj\<in>set sjs. 0 \<le> fit_score sj \<and> fit_score sj \<le> 100"
proof (induction jobs arbitrary: i sjs)
  case Nil
  then show ?case by simp
next
  case (Cons job jobs)
  from Cons.prems obtain sj rest where
    p: "scored_from job (mock_score i) mock_explanation = Inr sj" "mock_loop (Suc i) jobs = Inr rest"
      "sjs = sj # rest"
    by (auto simp: bind_def split: sum.splits)
  from scored_from_fit [OF p(1)] mock_score_range [of i]
  have "0 \<le> fit_score sj \<and> fit_score sj \<le> 100" by simp
  with Cons.IH [OF p(2)] p(3) show ?case by simp
qed

lemma parse_loop_range:
  "parse_loop lines i jobs = Inr sjs \<Longrightarrow> \<forall>sj\<in>set sjs. 0 \<le> fit_score sj \<and> fit_score sj \<le> 100"
proof (induction jobs arbitrary: i sjs)
  case Nil
  then show ?case by simp
next
  case (Cons job jobs)
  obtain n e where le: "line_score lines i = (n, e)" by (cases "line_score lines i")
  with Cons.prems obtain sj rest where
    p: "scored_from job (max 0 (min 100 n)) e = Inr sj" "parse_loop lines (Suc i) jobs = Inr rest"
      "sjs = sj # rest"
    by (auto simp: bind_def split: sum.splits)
  from scored_from_fit [OF p(1)]
  have "0 \<le> fit_score sj \<and> fit_score sj \<le> 100" by simp
  with Cons.IH [OF p(2)] p(3) show ?case by simp
qed

lemma generate_mock_scores_range:
  "generate_mock_scores jobs = Inr sjs \<Longrightarrow> \<forall>sj\<in>set sjs. 0 \<le> fit_score sj \<and> fit_score sj \<le> 100"
  unfolding generate_mock_scores_def by (rule mock_loop_range)

lemma parse_ai_scores_range:
  "parse_ai_scores jobs resp = Inr sjs \<Longrightarrow> \<forall>sj\<in>set sjs. 0 \<le> fit_score sj \<and> fit_score sj \<le> 100"
  unfolding parse_ai_scores_def
  by (auto split: sum.splits dest: parse_loop_range generate_mock_scores_range)

lemma score_with_openai_range:
  "score_with_openai self n profile jobs = Inr sjs \<Longrightarrow>
     \<forall>sj\<in>set sjs. 0 \<le> fit_score sj \<and> fit_score sj \<le> 100"
  unfolding score_with_openai_def bind_def
  by (auto split: sum.splits dest: parse_ai_scores_range generate_mock_scores_range)

lemma score_with_claude_range:
  "score_with_claude self n profile jobs = Inr sjs \<Longrightarrow>
     \<forall>sj\<in>set sjs. 0 \<le> fit_score sj \<and> fit_score sj \<le> 100"
  unfolding score_with_claude_def bind_def
  by (auto split: sum.splits dest: parse_ai_scores_range generate_mock_scores_range)

lemma score_job_batch_range:
  "score_job_batch self n profile jobs = Inr sjs \<Longrightarrow>
     \<forall>sj\<in>set sjs. 0 \<le> fit_score sj \<and> fit_score sj \<le> 100"
  unfolding score_job_batch_def
  by (auto split: sum.splits if_splits
      dest: score_with_openai_range score_with_claude_range generate_mock_scores_range)

lemma score_loop_range:
  "score_loop self profile jobs i acc = Inr sjs \<Longrightarrow>
   \<forall>sj\<in>set acc. 0 \<le> fit_score sj \<and> fit_score sj \<le> 100 \<Longrightarrow>
   \<forall>sj\<in>set sjs. 0 \<le> fit_score sj \<and> fit_score sj \<le> 100"
proof (induction self profile jobs i acc rule: score_loop.induct)
  case (1 self profile jobs i acc)
  show ?case
  proof (cases "i < length jobs")
    case False
    with "1.prems" show ?thesis by (simp add: score_loop.simps)
  next
    case True
    with "1.prems"(1) obtain bs where
      b: "score_job_batch self (i div 5) profile (take 5 (drop i jobs)) = Inr bs"
        "score_loop self profile jobs (i + 5) (acc @ bs) = Inr sjs"
      by (subst (asm) score_loop.simps) (auto split: sum.splits)
    from score_job_batch_range [OF b(1)] "1.prems"(2)
    have "\<forall>sj\<in>set (acc @ bs). 0 \<le> fit_score sj \<and> fit_score sj \<le> 100" by auto
    from "1.IH" [OF True b(1) b(2) this] show ?thesis .
  qed
qed

lemma score_jobs_range:
  "score_jobs self requests_get url jobs user_skills user_experience = Inr sjs \<Longrightarrow>
     \<forall>sj\<in>set sjs. 0 \<le> fit_score sj \<and> fit_score sj \<le> 100"
  unfolding score_jobs_def Let_def
  by (auto split: sum.splits dest: generate_mock_scores_range dest!: score_loop_range)

text \<open>
  C4. Every scored job that \<open>score_jobs\<close> returns, on whatever path it was made (a parsed
  answer, the default of a line that fails to parse, the mock scores), has a fit score
  from 0 to 100; \<open>score_jobs\<close> does return, one scored job per job, when the jobs are
  typed as \<open>models/job.py\<close> types them. A score read from the answer is clamped, not
  rejected: the parsed job gets \<open>max 0 (min 100 n)\<close> for the integer \<open>n\<close> read for it.
\<close>

theorem fit_score_in_range:
  "(\<forall>sjs. score_jobs self requests_get url jobs user_skills user_experience = Inr sjs \<longrightarrow>
      (\<forall>sj\<in>set sjs. 0 \<le> fit_score sj \<and> fit_score sj \<le> 100)) \<and>
   ((\<forall>j\<in>set jobs. typed_job j) \<longrightarrow>
      (\<exists>sjs. score_jobs self requests_get url jobs user_skills user_experience = Inr sjs \<and>
         length sjs = length jobs) \<and>
      (\<exists>ps. parse_ai_scores jobs ai_response = Inr ps \<and> length ps = length jobs \<and>
         (\<forall>k<length jobs. fit_score (ps ! k) =
            max 0 (min 100 (fst (line_score (py_split ''\<newline>'' (strip ai_response)) k))))))"
proof (intro conjI allI impI)
  fix sjs
  assume "score_jobs self requests_get url jobs user_skills user_experience = Inr sjs"
  then show "\<forall>sj\<in>set sjs. 0 \<le> fit_score sj \<and> fit_score sj \<le> 100" by (rule score_jobs_range)
next
  assume "\<forall>j\<in>set jobs. typed_job j"
  from score_jobs_returns [OF this, of self requests_get url user_skills user_experience]
  show "\<exists>sjs. score_jobs self requests_get url jobs user_skills user_experience = Inr sjs \<and>
         length sjs = length jobs" by blast
next
  assume "\<forall>j\<in>set jobs. typed_job j"
  from parse_ai_scores_ok [OF this, of ai_response]
  show "\<exists>ps. parse_ai_scores jobs ai_response = Inr ps \<and> length ps = length jobs \<and>
         (\<forall>k<length jobs. fit_score (ps ! k) =
            max 0 (min 100 (fst (line_score (py_split ''\<newline>'' (strip ai_response)) k))))" by blast
qed

theorem fit_score_in_range_witness:
  "typed_job job_a \<and> typed_job job_b \<and>
   (\<exists>sjs. score_jobs (openai_only out_of_range_answer) resume_unavailable ''https://x/r.pdf''
             [job_a, job_b] None [] = Inr sjs \<and> length sjs = 2 \<and>
      0 \<le> fit_score (sjs ! 0) \<and> fit_score (sjs ! 0) \<le> 100 \<and>
      0 \<le> fit_score (sjs ! 1) \<and> fit_score (sjs ! 1) \<le> 100) \<and>
   (\<exists>ps. parse_ai_scores [job_a, job_b] out_of_range_answer = Inr ps \<and>
      fit_score (ps ! 0) = 100 \<and> fit_score (ps ! 1) = 0)"
proof -
  have h: "\<forall>j\<in>set [job_a, job_b]. typed_job j"
    by (simp add: job_a_typed job_b_typed)
  note t = fit_score_in_range [where jobs = "[job_a, job_b]" and self = "openai_only out_of_range_answer"
      and requests_get = resume_unavailable and url = "''https://x/r.pdf''" and user_skills = None
      and user_experience = "[]" and ai_response = out_of_range_answer]
  from t h obtain sjs where s: "score_jobs (openai_only out_of_range_answer) resume_unavailable
      ''https://x/r.pdf'' [job_a, job_b] None [] = Inr sjs" "length sjs = 2" by auto
  with t have r: "\<forall>sj\<in>set sjs. 0 \<le> fit_score sj \<and> fit_score sj \<le> 100" by blast
  from s(2) have "sjs ! 0 \<in> set sjs" "sjs ! 1 \<in> set sjs" by simp_all
  with r have r': "0 \<le> fit_score (sjs ! 0) \<and> fit_score (sjs ! 0) \<le> 100 \<and>
      0 \<le> fit_score (sjs ! 1) \<and> fit_score (sjs ! 1) \<le> 100" by blast
  from t h obtain ps where p: "parse_ai_scores [job_a, job_b] out_of_range_answer = Inr ps"
    "\<forall>k<length [job_a, job_b]. fit_score (ps ! k) =
        max 0 (min 100 (fst (line_score (py_split ''\<newline>'' (strip out_of_range_answer)) k)))"
    by auto
  have l0: "fst (line_score (py_split ''\<newline>'' (strip out_of_range_answer)) 0) = 150"
    by code_simp
  have l1: "fst (line_score (py_split ''\<newline>'' (strip out_of_range_answer)) 1) = - 20"
    by code_simp
  from p(2) [rule_format, of 0] p(2) [rule_format, of 1] l0 l1
  have "fit_score (ps ! 0) = 100" "fit_score (ps ! 1) = 0" by simp_all
  with s r' p(1) show ?thesis by (auto simp: job_a_typed job_b_typed)
qed


section \<open>Scoring: reading the lines of an answer\<close>

lemma py_split_not_Nil: "py_split sep s \<noteq> []"
  by (induction sep s rule: py_split.induct) (auto split: list.splits)

lemma py_split_cut:
  "sep \<noteq> [] \<Longrightarrow>
   py_split sep s = (case cut sep s of None \<Rightarrow> [s] | Some (a, b) \<Rightarrow> a # py_split sep b)"
proof (induction s)
  case Nil
  then show ?case by simp
next
  case (Cons c cs)
  show ?case
  proof (cases "prefix sep (c # cs)")
    case True
    with Cons.prems show ?thesis by simp
  next
    case False
    with Cons show ?thesis
      by (cases "cut sep cs") (auto split: list.splits)
  qed
qed

lemma hd_py_split: "sep \<noteq> [] \<Longrightarrow> hd (py_split sep s) = before sep s"
  by (subst py_split_cut) (auto simp: before_def split: option.splits)

lemma py_split_second:
  assumes "sep \<noteq> []" and "cut sep s = Some (a, b)"
  shows "py_split sep s = a # before sep b # tl (py_split sep b)"
proof -
  have "py_split sep b = hd (py_split sep b) # tl (py_split sep b)"
    using py_split_not_Nil [of sep b] by simp
  then have "py_split sep b = before sep b # tl (py_split sep b)"
    using assms(1) by (simp add: hd_py_split)
  then show ?thesis using assms by (subst py_split_cut) auto
qed

lemma parse_line_read_line: "parse_line line = read_line line"
proof (cases "cut '' - '' line")
  case None
  then have "py_split '' - '' line = [line]" by (subst py_split_cut) auto
  with None show ?thesis by (simp add: parse_line_def read_line_def)
next
  case (Some hr)
  obtain head rest where hr: "hr = (head, rest)" by (cases hr)
  with Some have parts: "py_split '' - '' line = head # before '' - '' rest # tl (py_split '' - '' rest)"
    by (intro py_split_second) auto
  show ?thesis
  proof (cases "cut '':'' head")
    case None
    then have "py_split '':'' head = [head]" by (subst py_split_cut) auto
    with None Some hr parts show ?thesis by (simp add: parse_line_def read_line_def)
  next
    case (Some la)
    obtain label after where la: "la = (label, after)" by (cases la)
    with Some have "py_split '':'' head = label # before '':'' after # tl (py_split '':'' after)"
      by (intro py_split_second) auto
    with Some la \<open>cut '' - '' line = Some hr\<close> hr parts show ?thesis
      by (simp add: parse_line_def read_line_def split: option.splits)
  qed
qed

text \<open>
  What the parser reads for the job number \<open>N\<close> (from 1): it looks at the first line of
  the stripped answer that contains \<open>Job N:\<close>. With no such line, or a line without the
  separator \<open>" - "\<close>, or one whose text between the first colon and the next (before the
  first separator) is not an integer, the job gets the score 50 and the explanation
  \<open>AI analysis completed\<close>. Otherwise it gets that integer, clamped to 0..100, and as
  explanation the text between the first separator and the next one (up to the end of the
  line when there is no other), stripped.
\<close>

lemma parse_ai_scores_reads_lines:
  assumes "\<forall>j\<in>set jobs. typed_job j" and "1 \<le> N" and "N \<le> length jobs"
  shows "\<exists>sjs. parse_ai_scores jobs ai_response = Inr sjs \<and> length sjs = length jobs \<and>
     (fit_score (sjs ! (N - 1)), score_explanation (sjs ! (N - 1))) =
       (case find (contains (''Job '' @ str_nat N @ '':'')) (py_split ''\<newline>'' (strip ai_response)) of
          None \<Rightarrow> (50, Some ''AI analysis completed'')
        | Some line \<Rightarrow>
            (case read_line line of
               None \<Rightarrow> (50, Some ''AI analysis completed'')
             | Some (n, e) \<Rightarrow> (max 0 (min 100 n), Some e)))"
proof -
  let ?lines = "py_split ''\<newline>'' (strip ai_response)"
  from parse_ai_scores_ok [OF assms(1), of ai_response] obtain sjs where
    s: "parse_ai_scores jobs ai_response = Inr sjs" "length sjs = length jobs"
      "\<forall>k<length jobs. keeps_fields (jobs ! k) (sjs ! k)
          \<and> fit_score (sjs ! k) = max 0 (min 100 (fst (line_score ?lines k)))
          \<and> score_explanation (sjs ! k) = Some (snd (line_score ?lines k))" by blast
  have k: "N - 1 < length jobs" "N - 1 + 1 = N" using assms(2,3) by simp_all
  have m: "job_marker (N - 1) = ''Job '' @ str_nat N @ '':''"
    unfolding job_marker_def k(2) ..
  from s(3) [rule_format, OF k(1)]
  have "(fit_score (sjs ! (N - 1)), score_explanation (sjs ! (N - 1))) =
      (max 0 (min 100 (fst (line_score ?lines (N - 1)))), Some (snd (line_score ?lines (N - 1))))"
    by simp
  also have "\<dots> = (case find (contains (''Job '' @ str_nat N @ '':'')) ?lines of
          None \<Rightarrow> (50, Some ''AI analysis completed'')
        | Some line \<Rightarrow>
            (case read_line line of
               None \<Rightarrow> (50, Some ''AI analysis completed'')
             | Some (n, e) \<Rightarrow> (max 0 (min 100 n), Some e)))"
    unfolding line_score_def m parse_line_read_line default_explanation_def
    by (auto split: option.splits)
  finally show ?thesis using s(1,2) by blast
qed

text \<open>
  C6. For each job number, parsing the answer finds the line containing \<open>Job N:\<close>, splits
  it at the first separator \<open>" - "\<close> and reads the integer after the colon as the score and
  the remaining text as the explanation; a missing or malformed line gives 50 and
  \<open>AI analysis completed\<close>. The code does so for the line
  \<open>Job 2: 77 - Strong skills match\<close> and for an answer without lines, but it splits at
  every separator and keeps the second part only: for the line
  \<open>Job 1: 80 - Good fit - strong Python\<close> the explanation it returns is \<open>Good fit\<close>,
  where the text that remains after the first separator is \<open>Good fit - strong Python\<close>.
\<close>

theorem explanation_cut_at_second_separator:
  "map_sum id (map scored)
     (parse_ai_scores [job_a] dashed_answer) = Inr [(80, Some ''Good fit'')] \<and>
   map_option (strip \<circ> snd) (cut '' - '' dashed_answer) = Some ''Good fit - strong Python'' \<and>
   map_sum id (map scored)
     (parse_ai_scores [job_a, job_b] two_line_answer) =
     Inr [(90, Some ''Close match''), (77, Some ''Strong skills match'')] \<and>
   map_sum id (map scored)
     (parse_ai_scores [job_a] no_answer) = Inr [(50, Some ''AI analysis completed'')]"
  by code_simp

end
